theory Spec2Isabelle
  imports Main "HOL-Library.Signed_Division"
begin

section \<open>The C library functions that pixel-mapper.cc calls\<close>

text \<open>
  The C type \<open>int\<close> is modelled by \<^typ>\<open>int\<close>: signed overflow in arithmetic is
  undefined in C++, so the model is the program on the runs where every arithmetic result
  fits the machine integer. Numbers read from a parameter string are the exception: they
  come from \<open>strtol\<close> and are converted to \<open>int\<close>, and that is modelled with its
  clamping and truncation. Division and remainder are C's, truncating towards zero
  (\<open>sdiv\<close> and \<open>smod\<close>); dividing by zero is undefined behaviour (SIGFPE on the
  target) and is the one error value of the model.
\<close>

datatype error = DivisionByZero

definition c_div :: "int \<Rightarrow> int \<Rightarrow> error + int" where
  "c_div a b = (if b = 0 then Inl DivisionByZero else Inr (a sdiv b))"

definition c_mod :: "int \<Rightarrow> int \<Rightarrow> error + int" where
  "c_mod a b = (if b = 0 then Inl DivisionByZero else Inr (a smod b))"

definition bindE :: "error + 'a \<Rightarrow> ('a \<Rightarrow> error + 'b) \<Rightarrow> error + 'b" where
  "bindE r f = (case r of Inl e \<Rightarrow> Inl e | Inr v \<Rightarrow> f v)"

definition isdigit :: "char \<Rightarrow> bool" where
  "isdigit c = (let n = (of_char c :: nat) in 48 \<le> n \<and> n \<le> 57)"

definition isspace :: "char \<Rightarrow> bool" where
  "isspace c = (let n = (of_char c :: nat) in n = 32 \<or> (9 \<le> n \<and> n \<le> 13))"

definition tolower :: "char \<Rightarrow> char" where
  "tolower c = (let n = (of_char c :: nat) in
                if 65 \<le> n \<and> n \<le> 90 then char_of (n + 32) else c)"

definition digit_value :: "char \<Rightarrow> int" where
  "digit_value c = int (of_char c) - 48"

text \<open>
  \<open>strtol(s, &errpos, 10)\<close>: optional white space, an optional sign, then decimal digits.
  The result is the value and the unparsed rest (what \<open>errpos\<close> points to); with no digit
  at all the value is 0 and \<open>errpos\<close> is the start of the string. A value outside the
  range of \<open>long\<close> is clamped to \<open>LONG_MAX\<close> or \<open>LONG_MIN\<close>. The type \<open>long\<close> has 64
  bits here (LP64, the 64-bit Linux targets); with a 32-bit \<open>long\<close> the clamp is at the
  bounds of \<open>int\<close> instead, and the two agree on every value that fits \<open>int\<close>.
\<close>

definition LONG_MAX :: int where
  "LONG_MAX = 2 ^ 63 - 1"

definition LONG_MIN :: int where
  "LONG_MIN = - (2 ^ 63)"

definition strtol :: "string \<Rightarrow> int \<times> string" where
  "strtol s =
     (let s1 = dropWhile isspace s;
          neg = (s1 \<noteq> [] \<and> hd s1 = CHR ''-'');
          s2 = (if s1 \<noteq> [] \<and> (hd s1 = CHR ''-'' \<or> hd s1 = CHR ''+'') then tl s1 else s1);
          ds = takeWhile isdigit s2;
          v = foldl (\<lambda>a c. 10 * a + digit_value c) 0 ds
      in if ds = [] then (0, s)
         else (max LONG_MIN (min LONG_MAX (if neg then - v else v)), dropWhile isdigit s2))"

text \<open>
  The conversion of a \<open>long\<close> to the 32-bit \<open>int\<close>, where \<open>atoi\<close> returns and where
  the result of \<open>strtol\<close> is stored in an \<open>int\<close>: the value is reduced modulo \<open>2^32\<close>
  into the range of \<open>int\<close>. \<open>atoi(s)\<close> is \<open>(int) strtol(s, NULL, 10)\<close>.
\<close>

definition int_of_long :: "int \<Rightarrow> int" where
  "int_of_long v = (v + 2 ^ 31) mod 2 ^ 32 - 2 ^ 31"

definition atoi :: "string \<Rightarrow> int" where
  "atoi s = int_of_long (fst (strtol s))"

text \<open>
  \<open>strtok_r(str, delim, &saveptr)\<close> with a one-character delimiter: leading delimiters
  are skipped; at the end of the string there is no token (NULL); otherwise the token runs
  to the next delimiter (which is overwritten by NUL) and \<open>saveptr\<close> is left behind it.
  The result is the token and the string \<open>saveptr\<close> points to.
\<close>

definition strtok_r :: "string \<Rightarrow> char \<Rightarrow> (string \<times> string) option" where
  "strtok_r s d =
     (let s' = dropWhile (\<lambda>c. c = d) s
      in if s' = [] then None
         else Some (takeWhile (\<lambda>c. c \<noteq> d) s', tl (dropWhile (\<lambda>c. c \<noteq> d) s')))"

text \<open>
  What the mappers print on \<open>stderr\<close>: one constructor for each \<open>fprintf\<close> of the file,
  with the values it formats.
\<close>

datatype diagnostic =
    NeedParallel2                   \<comment> \<open>need at least --led-parallel=2 for usefullness\<close>
  | RowSingleCharacter              \<comment> \<open>parameter should be a single character:'V' or 'H'\<close>
  | RowEitherVorH                   \<comment> \<open>parameter should be either 'V' or 'H'\<close>
  | FoundNonDigit string            \<comment> \<open>error in parameter string, found non-digit\<close>
  | PanelIndexTooHigh int int       \<comment> \<open>panel index is too high: i (max: n)\<close>
  | InvalidRotationValue int        \<comment> \<open>invalid parameter value for rotation\<close>
  | InvalidRotateParameter string   \<comment> \<open>Invalid rotate parameter\<close>
  | RotationMultipleOf90            \<comment> \<open>Rotation needs to be multiple of 90 degrees\<close>
  | MirrorSingleCharacter           \<comment> \<open>Mirror parameter should be a single character\<close>
  | MirrorEitherVorH                \<comment> \<open>Mirror parameter should be either 'V' or 'H'\<close>
  | UNeedChain                      \<comment> \<open>U-mapper: need at least --led-chain=4\<close>
  | UChainDivisibleByTwo            \<comment> \<open>U-mapper: Chain needs to be divisible by two\<close>
  | NoSuchMapper string             \<comment> \<open>no such mapper\<close>

section \<open>RowArrangementMapper\<close>

datatype Mode = normal | band_horizontal | band_vertical

record RowArrangementMapper =
  Row_chain :: int
  Row_parallel :: int
  Row_mode :: Mode

text \<open>
  The members \<open>chain_\<close>, \<open>parallel_\<close> and \<open>mode_\<close> are the fields \<open>Row_chain\<close>,
  \<open>Row_parallel\<close> and \<open>Row_mode\<close>: an Isabelle name cannot end in an underscore, and the
  other classes have members of the same names.
  The constructor initialises \<open>parallel_\<close> only; \<open>chain_\<close> and \<open>mode_\<close> hold
  indeterminate values, which are the arguments here.
\<close>

definition RowArrangementMapper_new :: "int \<Rightarrow> Mode \<Rightarrow> RowArrangementMapper" where
  "RowArrangementMapper_new c0 m0 = \<lparr>Row_chain = c0, Row_parallel = 1, Row_mode = m0\<rparr>"

text \<open>
  \<open>SetParameters\<close> returns its boolean result, the object after the call and what was
  printed. A parameter of length other than one prints a diagnostic and falls through to
  the stores with mode \<open>normal\<close>.
\<close>

definition RowArrangementMapper_SetParameters ::
  "RowArrangementMapper \<Rightarrow> int \<Rightarrow> int \<Rightarrow> string option
    \<Rightarrow> bool \<times> RowArrangementMapper \<times> diagnostic list" where
  "RowArrangementMapper_SetParameters m chain parallel param =
     (if parallel < 2 then (False, m, [NeedParallel2])
      else
        let store = (\<lambda>mode. m\<lparr>Row_chain := chain, Row_parallel := parallel,
                                Row_mode := mode\<rparr>)
        in case param of
             None \<Rightarrow> (True, store normal, [])
           | Some p \<Rightarrow>
               if length p = 0 then (True, store normal, [])
               else if length p \<noteq> 1 then (True, store normal, [RowSingleCharacter])
               else if hd p = CHR ''V'' \<or> hd p = CHR ''v'' then (True, store band_vertical, [])
               else if hd p = CHR ''H'' \<or> hd p = CHR ''h'' then (True, store band_horizontal, [])
               else (False, m, [RowEitherVorH]))"

text \<open>
  \<open>GetSizeMapping\<close> returns its boolean result with \<open>(*visible_width, *visible_height)\<close>.
  The panel width is computed before the switch, in every mode.
\<close>

definition RowArrangementMapper_GetSizeMapping ::
  "RowArrangementMapper \<Rightarrow> int \<Rightarrow> int \<Rightarrow> error + (bool \<times> int \<times> int)" where
  "RowArrangementMapper_GetSizeMapping m matrix_width matrix_height =
     bindE (c_div matrix_width (Row_chain m)) (\<lambda>panel_width.
     bindE (c_div matrix_height (Row_parallel m)) (\<lambda>visible_height.
       case Row_mode m of
         normal \<Rightarrow> Inr (True, matrix_width * Row_parallel m, visible_height)
       | band_vertical \<Rightarrow>
           Inr (True, matrix_width * Row_parallel m - panel_width * 2, visible_height)
       | band_horizontal \<Rightarrow>
           Inr (True, matrix_width * Row_parallel m - panel_width * 2, visible_height)))"

text \<open>
  \<open>MapVisibleToMatrix\<close> returns what it stores through \<open>matrix_x\<close> and \<open>matrix_y\<close>;
  \<open>None\<close> is a call that returns without writing either of them.
\<close>

definition RowArrangementMapper_MapVisibleToMatrix ::
  "RowArrangementMapper \<Rightarrow> int \<Rightarrow> int \<Rightarrow> int \<Rightarrow> int \<Rightarrow> error + (int \<times> int) option" where
  "RowArrangementMapper_MapVisibleToMatrix m matrix_width matrix_height x y =
     bindE (c_div matrix_height (Row_parallel m)) (\<lambda>panel_height.
     bindE (c_div matrix_width (Row_chain m)) (\<lambda>panel_width.
     bindE (c_div x matrix_width) (\<lambda>y_diff.
       case Row_mode m of
         normal \<Rightarrow>
           bindE (c_mod x matrix_width) (\<lambda>mx. Inr (Some (mx, y_diff * panel_height + y)))
       | band_vertical \<Rightarrow>
           bindE (c_mod (x + panel_width) matrix_width) (\<lambda>mx.
           bindE (c_div (x + panel_width) matrix_width) (\<lambda>q.
             Inr (Some (mx, q * panel_height + y))))
       | band_horizontal \<Rightarrow>
           bindE (c_mod x matrix_width) (\<lambda>mx. Inr (Some (mx, y_diff * panel_height + y))))))"


section \<open>RotatePanelPixelMapper\<close>

text \<open>
  Every token that \<open>strtok_r\<close> returns is followed by a strictly shorter rest: this is
  what makes the two tokenising loops of \<open>SetParameters\<close> terminate.
\<close>

lemma strtok_r_shorter:
  assumes "strtok_r s d = Some (tok, rest)"
  shows "length rest < length s"
proof -
  let ?s' = "dropWhile (\<lambda>c. c = d) s"
  from assms have ne: "?s' \<noteq> []" and r: "rest = tl (dropWhile (\<lambda>c. c \<noteq> d) ?s')"
    by (auto simp: strtok_r_def Let_def split: if_splits)
  have "length rest \<le> length (dropWhile (\<lambda>c. c \<noteq> d) ?s') - 1"
    using r by simp
  moreover have "length (dropWhile (\<lambda>c. c \<noteq> d) ?s') \<le> length ?s'"
    by (rule length_dropWhile_le)
  moreover have "length ?s' \<le> length s"
    by (rule length_dropWhile_le)
  moreover have "0 < length ?s'"
    using ne by simp
  ultimately show ?thesis by linarith
qed

record RotatePanelPixelMapper =
  RotatePanel_chain :: int
  RotatePanel_parallel :: int
  RotatePanel_panels :: "int \<rightharpoonup> int"

text \<open>
  The constructor leaves \<open>chain_\<close> and \<open>parallel_\<close> indeterminate (the arguments) and
  \<open>panels_\<close> empty.
\<close>

definition RotatePanelPixelMapper_new :: "int \<Rightarrow> int \<Rightarrow> RotatePanelPixelMapper" where
  "RotatePanelPixelMapper_new c0 p0 =
     \<lparr>RotatePanel_chain = c0, RotatePanel_parallel = p0, RotatePanel_panels = Map.empty\<rparr>"

text \<open>
  The inner loop of \<open>SetParameters\<close>, over the \<open>|\<close>-separated parts of one token.
  \<open>rest\<close> is what is left of the token, \<open>i\<close> the counter, \<open>panel_index\<close> the local
  variable of that name (declared outside both loops, so it survives from one token to the
  next). Each \<open>break\<close> of the source is a branch without a recursive call.
\<close>

function RotatePanel_inner ::
  "int \<Rightarrow> string \<Rightarrow> int \<Rightarrow> int \<Rightarrow> (int \<rightharpoonup> int) \<Rightarrow> diagnostic list
    \<Rightarrow> int \<times> (int \<rightharpoonup> int) \<times> diagnostic list" where
  "RotatePanel_inner panel_count rest i panel_index panels diags =
     (case strtok_r rest (CHR ''|'') of
        None \<Rightarrow> (panel_index, panels, diags)
      | Some (token2, rest') \<Rightarrow>
          if \<not> list_all isdigit token2
          then (panel_index, panels, diags @ [FoundNonDigit token2])
          else if i smod 2 = 0
          then (let panel_index' = atoi token2 in
                if panel_index' > panel_count - 1
                then (panel_index', panels,
                      diags @ [PanelIndexTooHigh panel_index' (panel_count - 1)])
                else RotatePanel_inner panel_count rest' (i + 1) panel_index' panels diags)
          else (let panel_angle = atoi token2 in
                if panel_angle smod 90 \<noteq> 0
                then RotatePanel_inner panel_count rest' (i + 1) panel_index panels
                       (diags @ [InvalidRotationValue panel_angle])
                else RotatePanel_inner panel_count rest' (i + 1) panel_index
                       (panels(panel_index \<mapsto> panel_angle)) diags))"
  by pat_completeness auto
termination
  by (relation "measure (\<lambda>(panel_count, rest, i, panel_index, panels, diags). length rest)")
     (auto dest: strtok_r_shorter)

declare RotatePanel_inner.simps [simp del]

text \<open>
  The defining equations recurse under a \<open>case\<close>: they are unfolded by hand, one
  token at a time, and kept out of the simplifier.
  The outer loop runs over the comma-separated tokens of the parameter string.
\<close>

function RotatePanel_outer ::
  "int \<Rightarrow> string \<Rightarrow> int \<Rightarrow> (int \<rightharpoonup> int) \<Rightarrow> diagnostic list
    \<Rightarrow> (int \<rightharpoonup> int) \<times> diagnostic list" where
  "RotatePanel_outer panel_count rest panel_index panels diags =
     (case strtok_r rest (CHR '','') of
        None \<Rightarrow> (panels, diags)
      | Some (token1, rest') \<Rightarrow>
          (case RotatePanel_inner panel_count token1 0 panel_index panels diags of
             (panel_index', panels', diags') \<Rightarrow>
               RotatePanel_outer panel_count rest' panel_index' panels' diags'))"
  by pat_completeness auto
termination
  by (relation "measure (\<lambda>(panel_count, rest, panel_index, panels, diags). length rest)")
     (auto dest: strtok_r_shorter)

declare RotatePanel_outer.simps [simp del]

definition RotatePanelPixelMapper_SetParameters ::
  "RotatePanelPixelMapper \<Rightarrow> int \<Rightarrow> int \<Rightarrow> string option
    \<Rightarrow> bool \<times> RotatePanelPixelMapper \<times> diagnostic list" where
  "RotatePanelPixelMapper_SetParameters m chain parallel param =
     (let m' = m\<lparr>RotatePanel_chain := chain, RotatePanel_parallel := parallel\<rparr>
      in case param of
           None \<Rightarrow> (True, m', [])
         | Some p \<Rightarrow>
             (case RotatePanel_outer (chain * parallel) p 0 (RotatePanel_panels m) [] of
                (panels', diags) \<Rightarrow> (True, m'\<lparr>RotatePanel_panels := panels'\<rparr>, diags)))"

definition RotatePanelPixelMapper_GetSizeMapping ::
  "RotatePanelPixelMapper \<Rightarrow> int \<Rightarrow> int \<Rightarrow> error + (bool \<times> int \<times> int)" where
  "RotatePanelPixelMapper_GetSizeMapping m matrix_width matrix_height =
     Inr (True, matrix_width, matrix_height)"

text \<open>
  \<open>MapVisibleToMatrix\<close> declares \<open>panel_cols_\<close> and \<open>panel_rows_\<close> as
  \<open>static const int\<close> inside the function: each is initialised when control first passes
  its declaration and keeps that value for the rest of the process. The two statics are
  state of the function: \<open>None\<close> before the first call, the stored value afterwards.
\<close>

record panel_statics =
  panel_cols :: "int option"
  panel_rows :: "int option"

definition statics_uninitialised :: panel_statics where
  "statics_uninitialised = \<lparr>panel_cols = None, panel_rows = None\<rparr>"

definition static_const_init :: "int option \<Rightarrow> error + int \<Rightarrow> error + int" where
  "static_const_init s initialiser = (case s of Some v \<Rightarrow> Inr v | None \<Rightarrow> initialiser)"

text \<open>
  The result is the statics after the call and what was stored through \<open>matrix_x\<close> and
  \<open>matrix_y\<close>. The \<open>switch\<close> has the cases 0, 90, 180 and 270 and no default: with
  any other stored angle the call returns without writing either output (\<open>None\<close>).
\<close>

definition RotatePanelPixelMapper_MapVisibleToMatrix ::
  "RotatePanelPixelMapper \<Rightarrow> panel_statics \<Rightarrow> int \<Rightarrow> int \<Rightarrow> int \<Rightarrow> int
    \<Rightarrow> error + (panel_statics \<times> (int \<times> int) option)" where
  "RotatePanelPixelMapper_MapVisibleToMatrix m st matrix_width matrix_height x y =
     bindE (static_const_init (panel_cols st) (c_div matrix_width (RotatePanel_chain m)))
       (\<lambda>pc.
     bindE (static_const_init (panel_rows st) (c_div matrix_height (RotatePanel_parallel m)))
       (\<lambda>pr.
     let st' = \<lparr>panel_cols = Some pc, panel_rows = Some pr\<rparr> in
     bindE (c_div x pc) (\<lambda>panel_x_nr.
     bindE (c_div y pr) (\<lambda>panel_y_nr.
     let panel_nr = panel_y_nr * RotatePanel_chain m + panel_x_nr in
     case RotatePanel_panels m panel_nr of
       None \<Rightarrow> Inr (st', Some (x, y))
     | Some angle \<Rightarrow>
         bindE (if panel_x_nr = 0 then Inr x else c_mod x (panel_x_nr * pc)) (\<lambda>panel_x.
         bindE (if panel_y_nr = 0 then Inr y else c_mod y (panel_y_nr * pr)) (\<lambda>panel_y.
           if angle = 0 then Inr (st', Some (x, y))
           else if angle = 90
           then Inr (st', Some (panel_x_nr * pc + (pc - panel_y - 1),
                                panel_y_nr * pr + panel_x))
           else if angle = 180
           then Inr (st', Some (panel_x_nr * pc + (pr - panel_x - 1),
                                panel_y_nr * pr + (pc - panel_y - 1)))
           else if angle = 270
           then Inr (st', Some (panel_x_nr * pc + panel_y,
                                panel_y_nr * pr + (pr - panel_x - 1)))
           else Inr (st', None)))))))"

section \<open>ReorderPixelMapper\<close>

record ReorderPixelMapper =
  Reorder_chain :: int
  Reorder_parallel :: int
  Reorder_panels :: "int \<rightharpoonup> int"

definition ReorderPixelMapper_new :: "int \<Rightarrow> int \<Rightarrow> ReorderPixelMapper" where
  "ReorderPixelMapper_new c0 p0 =
     \<lparr>Reorder_chain = c0, Reorder_parallel = p0, Reorder_panels = Map.empty\<rparr>"

text \<open>
  The same two loops as in the rotate-panel mapper; the second part of a pair is a panel
  index too, bounds-checked like the first, and a second index that is too high leaves the
  loop before the pair is stored.
\<close>

function Reorder_inner ::
  "int \<Rightarrow> string \<Rightarrow> int \<Rightarrow> int \<Rightarrow> (int \<rightharpoonup> int) \<Rightarrow> diagnostic list
    \<Rightarrow> int \<times> (int \<rightharpoonup> int) \<times> diagnostic list" where
  "Reorder_inner panel_count rest i panel_index_from panels diags =
     (case strtok_r rest (CHR ''|'') of
        None \<Rightarrow> (panel_index_from, panels, diags)
      | Some (token2, rest') \<Rightarrow>
          if \<not> list_all isdigit token2
          then (panel_index_from, panels, diags @ [FoundNonDigit token2])
          else if i smod 2 = 0
          then (let panel_index_from' = atoi token2 in
                if panel_index_from' > panel_count - 1
                then (panel_index_from', panels,
                      diags @ [PanelIndexTooHigh panel_index_from' (panel_count - 1)])
                else Reorder_inner panel_count rest' (i + 1) panel_index_from' panels diags)
          else (let panel_index_to = atoi token2 in
                if panel_index_to > panel_count - 1
                then (panel_index_from, panels,
                      diags @ [PanelIndexTooHigh panel_index_to (panel_count - 1)])
                else Reorder_inner panel_count rest' (i + 1) panel_index_from
                       (panels(panel_index_from \<mapsto> panel_index_to)) diags))"
  by pat_completeness auto
termination
  by (relation "measure (\<lambda>(panel_count, rest, i, panel_index, panels, diags). length rest)")
     (auto dest: strtok_r_shorter)

declare Reorder_inner.simps [simp del]

function Reorder_outer ::
  "int \<Rightarrow> string \<Rightarrow> int \<Rightarrow> (int \<rightharpoonup> int) \<Rightarrow> diagnostic list
    \<Rightarrow> (int \<rightharpoonup> int) \<times> diagnostic list" where
  "Reorder_outer panel_count rest panel_index_from panels diags =
     (case strtok_r rest (CHR '','') of
        None \<Rightarrow> (panels, diags)
      | Some (token1, rest') \<Rightarrow>
          (case Reorder_inner panel_count token1 0 panel_index_from panels diags of
             (panel_index_from', panels', diags') \<Rightarrow>
               Reorder_outer panel_count rest' panel_index_from' panels' diags'))"
  by pat_completeness auto
termination
  by (relation "measure (\<lambda>(panel_count, rest, panel_index, panels, diags). length rest)")
     (auto dest: strtok_r_shorter)

declare Reorder_outer.simps [simp del]

definition ReorderPixelMapper_SetParameters ::
  "ReorderPixelMapper \<Rightarrow> int \<Rightarrow> int \<Rightarrow> string option
    \<Rightarrow> bool \<times> ReorderPixelMapper \<times> diagnostic list" where
  "ReorderPixelMapper_SetParameters m chain parallel param =
     (let m' = m\<lparr>Reorder_chain := chain, Reorder_parallel := parallel\<rparr>
      in case param of
           None \<Rightarrow> (True, m', [])
         | Some p \<Rightarrow>
             (case Reorder_outer (chain * parallel) p 0 (Reorder_panels m) [] of
                (panels', diags) \<Rightarrow> (True, m'\<lparr>Reorder_panels := panels'\<rparr>, diags)))"

definition ReorderPixelMapper_GetSizeMapping ::
  "ReorderPixelMapper \<Rightarrow> int \<Rightarrow> int \<Rightarrow> error + (bool \<times> int \<times> int)" where
  "ReorderPixelMapper_GetSizeMapping m matrix_width matrix_height =
     Inr (True, matrix_width, matrix_height)"

text \<open>
  \<open>MapVisibleToMatrix\<close> has two function-local statics of its own, like the
  rotate-panel mapper. The destination panel is decomposed with \<open>parallel_ - 1\<close> as
  divisor, modulo first and division second, before the in-panel offsets are computed.
\<close>

definition ReorderPixelMapper_MapVisibleToMatrix ::
  "ReorderPixelMapper \<Rightarrow> panel_statics \<Rightarrow> int \<Rightarrow> int \<Rightarrow> int \<Rightarrow> int
    \<Rightarrow> error + (panel_statics \<times> (int \<times> int) option)" where
  "ReorderPixelMapper_MapVisibleToMatrix m st matrix_width matrix_height x y =
     bindE (static_const_init (panel_cols st) (c_div matrix_width (Reorder_chain m)))
       (\<lambda>pc.
     bindE (static_const_init (panel_rows st) (c_div matrix_height (Reorder_parallel m)))
       (\<lambda>pr.
     let st' = \<lparr>panel_cols = Some pc, panel_rows = Some pr\<rparr> in
     bindE (c_div x pc) (\<lambda>panel_from_x_index.
     bindE (c_div y pr) (\<lambda>panel_from_y_index.
     let panel_from_index = panel_from_y_index * Reorder_chain m + panel_from_x_index in
     case Reorder_panels m panel_from_index of
       None \<Rightarrow> Inr (st', Some (x, y))
     | Some panel_to_index \<Rightarrow>
         bindE (c_mod panel_to_index (Reorder_parallel m - 1)) (\<lambda>panel_to_x_index.
         bindE (c_div panel_to_index (Reorder_parallel m - 1)) (\<lambda>panel_to_y_index.
         bindE (if panel_from_x_index = 0 then Inr x
                else c_mod x (panel_from_x_index * pc)) (\<lambda>panel_x.
         bindE (if panel_from_y_index = 0 then Inr y
                else c_mod y (panel_from_y_index * pr)) (\<lambda>panel_y.
           Inr (st', Some (panel_to_x_index * pc + panel_x,
                           panel_to_y_index * pr + panel_y))))))))))"


section \<open>RotatePixelMapper\<close>

record RotatePixelMapper =
  Rotate_angle :: int

definition RotatePixelMapper_new :: RotatePixelMapper where
  "RotatePixelMapper_new = \<lparr>Rotate_angle = 0\<rparr>"

definition RotatePixelMapper_SetParameters ::
  "RotatePixelMapper \<Rightarrow> int \<Rightarrow> int \<Rightarrow> string option
    \<Rightarrow> bool \<times> RotatePixelMapper \<times> diagnostic list" where
  "RotatePixelMapper_SetParameters m chain parallel param =
     (case param of
        None \<Rightarrow> (True, m\<lparr>Rotate_angle := 0\<rparr>, [])
      | Some p \<Rightarrow>
          if length p = 0 then (True, m\<lparr>Rotate_angle := 0\<rparr>, [])
          else (case strtol p of
                  (l, errpos) \<Rightarrow>
                    let angle = int_of_long l
                    in if errpos \<noteq> [] then (False, m, [InvalidRotateParameter p])
                       else if angle smod 90 \<noteq> 0 then (False, m, [RotationMultipleOf90])
                       else (True, m\<lparr>Rotate_angle := (angle + 360) smod 360\<rparr>, [])))"

definition RotatePixelMapper_GetSizeMapping ::
  "RotatePixelMapper \<Rightarrow> int \<Rightarrow> int \<Rightarrow> error + (bool \<times> int \<times> int)" where
  "RotatePixelMapper_GetSizeMapping m matrix_width matrix_height =
     (if Rotate_angle m smod 180 = 0 then Inr (True, matrix_width, matrix_height)
      else Inr (True, matrix_height, matrix_width))"

text \<open>The \<open>switch\<close> on \<open>angle_\<close> has no default either.\<close>

definition RotatePixelMapper_MapVisibleToMatrix ::
  "RotatePixelMapper \<Rightarrow> int \<Rightarrow> int \<Rightarrow> int \<Rightarrow> int \<Rightarrow> error + (int \<times> int) option" where
  "RotatePixelMapper_MapVisibleToMatrix m matrix_width matrix_height x y =
     (if Rotate_angle m = 0 then Inr (Some (x, y))
      else if Rotate_angle m = 90 then Inr (Some (matrix_width - y - 1, x))
      else if Rotate_angle m = 180
      then Inr (Some (matrix_width - x - 1, matrix_height - y - 1))
      else if Rotate_angle m = 270 then Inr (Some (y, matrix_height - x - 1))
      else Inr None)"

section \<open>MirrorPixelMapper\<close>

record MirrorPixelMapper =
  Mirror_horizontal :: bool

definition MirrorPixelMapper_new :: MirrorPixelMapper where
  "MirrorPixelMapper_new = \<lparr>Mirror_horizontal = True\<rparr>"

text \<open>
  A parameter longer than one character prints a diagnostic and goes on to the
  \<open>switch\<close> on its first character.
\<close>

definition MirrorPixelMapper_SetParameters ::
  "MirrorPixelMapper \<Rightarrow> int \<Rightarrow> int \<Rightarrow> string option
    \<Rightarrow> bool \<times> MirrorPixelMapper \<times> diagnostic list" where
  "MirrorPixelMapper_SetParameters m chain parallel param =
     (case param of
        None \<Rightarrow> (True, m\<lparr>Mirror_horizontal := True\<rparr>, [])
      | Some p \<Rightarrow>
          if length p = 0 then (True, m\<lparr>Mirror_horizontal := True\<rparr>, [])
          else
            let diags = (if length p \<noteq> 1 then [MirrorSingleCharacter] else [])
            in if hd p = CHR ''V'' \<or> hd p = CHR ''v''
               then (True, m\<lparr>Mirror_horizontal := False\<rparr>, diags)
               else if hd p = CHR ''H'' \<or> hd p = CHR ''h''
               then (True, m\<lparr>Mirror_horizontal := True\<rparr>, diags)
               else (False, m, diags @ [MirrorEitherVorH]))"

definition MirrorPixelMapper_GetSizeMapping ::
  "MirrorPixelMapper \<Rightarrow> int \<Rightarrow> int \<Rightarrow> error + (bool \<times> int \<times> int)" where
  "MirrorPixelMapper_GetSizeMapping m matrix_width matrix_height =
     Inr (True, matrix_width, matrix_height)"

definition MirrorPixelMapper_MapVisibleToMatrix ::
  "MirrorPixelMapper \<Rightarrow> int \<Rightarrow> int \<Rightarrow> int \<Rightarrow> int \<Rightarrow> error + (int \<times> int) option" where
  "MirrorPixelMapper_MapVisibleToMatrix m matrix_width matrix_height x y =
     (if Mirror_horizontal m then Inr (Some (matrix_width - 1 - x, y))
      else Inr (Some (x, matrix_height - 1 - y)))"

section \<open>UArrangementMapper\<close>

record UArrangementMapper =
  U_parallel :: int

definition UArrangementMapper_new :: UArrangementMapper where
  "UArrangementMapper_new = \<lparr>U_parallel = 1\<rparr>"

definition UArrangementMapper_SetParameters ::
  "UArrangementMapper \<Rightarrow> int \<Rightarrow> int \<Rightarrow> string option
    \<Rightarrow> bool \<times> UArrangementMapper \<times> diagnostic list" where
  "UArrangementMapper_SetParameters m chain parallel param =
     (if chain < 2 then (False, m, [UNeedChain])
      else if chain smod 2 \<noteq> 0 then (False, m, [UChainDivisibleByTwo])
      else (True, m\<lparr>U_parallel := parallel\<rparr>, []))"

text \<open>
  Both outputs are written before the divisibility check, so a \<open>false\<close> result still
  carries them. (The diagnostic of the failing branch is not part of the result.)
\<close>

definition UArrangementMapper_GetSizeMapping ::
  "UArrangementMapper \<Rightarrow> int \<Rightarrow> int \<Rightarrow> error + (bool \<times> int \<times> int)" where
  "UArrangementMapper_GetSizeMapping m matrix_width matrix_height =
     (let visible_width = (matrix_width sdiv 64) * 32;
          visible_height = 2 * matrix_height
      in bindE (c_mod matrix_height (U_parallel m)) (\<lambda>r.
           if r \<noteq> 0 then Inr (False, visible_width, visible_height)
           else Inr (True, visible_width, visible_height)))"

definition UArrangementMapper_MapVisibleToMatrix ::
  "UArrangementMapper \<Rightarrow> int \<Rightarrow> int \<Rightarrow> int \<Rightarrow> int \<Rightarrow> error + (int \<times> int) option" where
  "UArrangementMapper_MapVisibleToMatrix m matrix_width matrix_height x y =
     bindE (c_div matrix_height (U_parallel m)) (\<lambda>panel_height.
     let visible_width = (matrix_width sdiv 64) * 32;
         slab_height = 2 * panel_height
     in
     bindE (c_div y slab_height) (\<lambda>q.
     let base_y = q * panel_height in
     bindE (c_mod y slab_height) (\<lambda>y1.
       if y1 < panel_height
       then Inr (Some (x + matrix_width sdiv 2, base_y + y1))
       else Inr (Some (visible_width - x - 1, base_y + (slab_height - y1 - 1))))))"

section \<open>VerticalMapper\<close>

record VerticalMapper =
  Vertical_z :: bool
  Vertical_chain :: int
  Vertical_parallel :: int

text \<open>The constructor initialises no member; the arguments are their indeterminate values.\<close>

definition VerticalMapper_new :: "bool \<Rightarrow> int \<Rightarrow> int \<Rightarrow> VerticalMapper" where
  "VerticalMapper_new z0 c0 p0 =
     \<lparr>Vertical_z = z0, Vertical_chain = c0, Vertical_parallel = p0\<rparr>"

definition strcasecmp :: "string \<Rightarrow> string \<Rightarrow> bool" where
  \<comment> \<open>whether \<open>strcasecmp(a, b) == 0\<close>\<close>
  "strcasecmp a b = (map tolower a = map tolower b)"

definition VerticalMapper_SetParameters ::
  "VerticalMapper \<Rightarrow> int \<Rightarrow> int \<Rightarrow> string option
    \<Rightarrow> bool \<times> VerticalMapper \<times> diagnostic list" where
  "VerticalMapper_SetParameters m chain parallel param =
     (True,
      m\<lparr>Vertical_chain := chain, Vertical_parallel := parallel,
        Vertical_z := (case param of None \<Rightarrow> False | Some p \<Rightarrow> strcasecmp p ''Z'')\<rparr>,
      [])"

definition VerticalMapper_GetSizeMapping ::
  "VerticalMapper \<Rightarrow> int \<Rightarrow> int \<Rightarrow> error + (bool \<times> int \<times> int)" where
  "VerticalMapper_GetSizeMapping m matrix_width matrix_height =
     bindE (c_div (matrix_width * Vertical_parallel m) (Vertical_chain m)) (\<lambda>visible_width.
     bindE (c_div (matrix_height * Vertical_chain m) (Vertical_parallel m)) (\<lambda>visible_height.
       Inr (True, visible_width, visible_height)))"

definition VerticalMapper_MapVisibleToMatrix ::
  "VerticalMapper \<Rightarrow> int \<Rightarrow> int \<Rightarrow> int \<Rightarrow> int \<Rightarrow> error + (int \<times> int) option" where
  "VerticalMapper_MapVisibleToMatrix m matrix_width matrix_height x y =
     bindE (c_div matrix_width (Vertical_chain m)) (\<lambda>panel_width.
     bindE (c_div matrix_height (Vertical_parallel m)) (\<lambda>panel_height.
     bindE (c_div y panel_height) (\<lambda>yq.
     bindE (c_div x panel_width) (\<lambda>xq.
     bindE (c_mod x panel_width) (\<lambda>x_within_panel.
     bindE (c_mod y panel_height) (\<lambda>y_within_panel.
     let x_panel_start = yq * panel_width;
         y_panel_start = xq * panel_height;
         needs_flipping = (Vertical_z m \<and> yq smod 2 = 1)
     in Inr (Some (x_panel_start + (if needs_flipping then panel_width - 1 - x_within_panel
                                    else x_within_panel),
                   y_panel_start + (if needs_flipping then panel_height - 1 - y_within_panel
                                    else y_within_panel)))))))))"

section \<open>The PixelMapper interface and the registry\<close>

text \<open>
  A \<open>PixelMapper*\<close> points to an object of one of the seven classes; the virtual calls
  dispatch on the class.
\<close>

datatype PixelMapper =
    OfRow RowArrangementMapper
  | OfRotatePanel RotatePanelPixelMapper
  | OfReorder ReorderPixelMapper
  | OfRotate RotatePixelMapper
  | OfU UArrangementMapper
  | OfVertical VerticalMapper
  | OfMirror MirrorPixelMapper

fun GetName :: "PixelMapper \<Rightarrow> string" where
  "GetName (OfRow m) = ''Row-mapper''"
| "GetName (OfRotatePanel m) = ''Rotate-panel''"
| "GetName (OfReorder m) = ''Reorder''"
| "GetName (OfRotate m) = ''Rotate''"
| "GetName (OfU m) = ''U-mapper''"
| "GetName (OfVertical m) = ''V-mapper''"
| "GetName (OfMirror m) = ''Mirror''"

fun SetParameters ::
  "PixelMapper \<Rightarrow> int \<Rightarrow> int \<Rightarrow> string option \<Rightarrow> bool \<times> PixelMapper \<times> diagnostic list" where
  "SetParameters (OfRow m) chain parallel param =
     (case RowArrangementMapper_SetParameters m chain parallel param of
        (ok, m', diags) \<Rightarrow> (ok, OfRow m', diags))"
| "SetParameters (OfRotatePanel m) chain parallel param =
     (case RotatePanelPixelMapper_SetParameters m chain parallel param of
        (ok, m', diags) \<Rightarrow> (ok, OfRotatePanel m', diags))"
| "SetParameters (OfReorder m) chain parallel param =
     (case ReorderPixelMapper_SetParameters m chain parallel param of
        (ok, m', diags) \<Rightarrow> (ok, OfReorder m', diags))"
| "SetParameters (OfRotate m) chain parallel param =
     (case RotatePixelMapper_SetParameters m chain parallel param of
        (ok, m', diags) \<Rightarrow> (ok, OfRotate m', diags))"
| "SetParameters (OfU m) chain parallel param =
     (case UArrangementMapper_SetParameters m chain parallel param of
        (ok, m', diags) \<Rightarrow> (ok, OfU m', diags))"
| "SetParameters (OfVertical m) chain parallel param =
     (case VerticalMapper_SetParameters m chain parallel param of
        (ok, m', diags) \<Rightarrow> (ok, OfVertical m', diags))"
| "SetParameters (OfMirror m) chain parallel param =
     (case MirrorPixelMapper_SetParameters m chain parallel param of
        (ok, m', diags) \<Rightarrow> (ok, OfMirror m', diags))"

fun GetSizeMapping :: "PixelMapper \<Rightarrow> int \<Rightarrow> int \<Rightarrow> error + (bool \<times> int \<times> int)" where
  "GetSizeMapping (OfRow m) w h = RowArrangementMapper_GetSizeMapping m w h"
| "GetSizeMapping (OfRotatePanel m) w h = RotatePanelPixelMapper_GetSizeMapping m w h"
| "GetSizeMapping (OfReorder m) w h = ReorderPixelMapper_GetSizeMapping m w h"
| "GetSizeMapping (OfRotate m) w h = RotatePixelMapper_GetSizeMapping m w h"
| "GetSizeMapping (OfU m) w h = UArrangementMapper_GetSizeMapping m w h"
| "GetSizeMapping (OfVertical m) w h = VerticalMapper_GetSizeMapping m w h"
| "GetSizeMapping (OfMirror m) w h = MirrorPixelMapper_GetSizeMapping m w h"

text \<open>
  The function-local statics of the two \<open>MapVisibleToMatrix\<close> bodies that have them:
  the state of the process that a call can read and initialise.
\<close>

record mapper_statics =
  RotatePanel_statics :: panel_statics
  Reorder_statics :: panel_statics

definition process_start :: mapper_statics where
  "process_start = \<lparr>RotatePanel_statics = statics_uninitialised,
                    Reorder_statics = statics_uninitialised\<rparr>"

fun MapVisibleToMatrix ::
  "PixelMapper \<Rightarrow> mapper_statics \<Rightarrow> int \<Rightarrow> int \<Rightarrow> int \<Rightarrow> int
    \<Rightarrow> error + (mapper_statics \<times> (int \<times> int) option)" where
  "MapVisibleToMatrix (OfRow m) g w h x y =
     bindE (RowArrangementMapper_MapVisibleToMatrix m w h x y) (\<lambda>out. Inr (g, out))"
| "MapVisibleToMatrix (OfRotatePanel m) g w h x y =
     bindE (RotatePanelPixelMapper_MapVisibleToMatrix m (RotatePanel_statics g) w h x y)
       (\<lambda>(st, out). Inr (g\<lparr>RotatePanel_statics := st\<rparr>, out))"
| "MapVisibleToMatrix (OfReorder m) g w h x y =
     bindE (ReorderPixelMapper_MapVisibleToMatrix m (Reorder_statics g) w h x y)
       (\<lambda>(st, out). Inr (g\<lparr>Reorder_statics := st\<rparr>, out))"
| "MapVisibleToMatrix (OfRotate m) g w h x y =
     bindE (RotatePixelMapper_MapVisibleToMatrix m w h x y) (\<lambda>out. Inr (g, out))"
| "MapVisibleToMatrix (OfU m) g w h x y =
     bindE (UArrangementMapper_MapVisibleToMatrix m w h x y) (\<lambda>out. Inr (g, out))"
| "MapVisibleToMatrix (OfVertical m) g w h x y =
     bindE (VerticalMapper_MapVisibleToMatrix m w h x y) (\<lambda>out. Inr (g, out))"
| "MapVisibleToMatrix (OfMirror m) g w h x y =
     bindE (MirrorPixelMapper_MapVisibleToMatrix m w h x y) (\<lambda>out. Inr (g, out))"

text \<open>
  \<open>MapperByName\<close> is \<open>std::map<std::string, PixelMapper*>\<close>. Each registered name owns
  its own object, so the map holds the objects themselves and a call that changes an
  object returns the changed map.
\<close>

type_synonym MapperByName = "string \<rightharpoonup> PixelMapper"

definition RegisterPixelMapperInternal :: "MapperByName \<Rightarrow> PixelMapper \<Rightarrow> MapperByName" where
  "RegisterPixelMapperInternal registry mapper =
     (let lower_name = map tolower (GetName mapper) in registry(lower_name \<mapsto> mapper))"

text \<open>
  The members that the constructors leave uninitialised, for the objects that
  \<open>CreateMapperMap\<close> creates.
\<close>

record indeterminate =
  ind_Row_chain :: int
  ind_Row_mode :: Mode
  ind_RotatePanel_chain :: int
  ind_RotatePanel_parallel :: int
  ind_Reorder_chain :: int
  ind_Reorder_parallel :: int
  ind_Vertical_z :: bool
  ind_Vertical_chain :: int
  ind_Vertical_parallel :: int

definition CreateMapperMap :: "indeterminate \<Rightarrow> MapperByName" where
  "CreateMapperMap u =
     (let result = Map.empty;
          result = RegisterPixelMapperInternal result
                     (OfRow (RowArrangementMapper_new (ind_Row_chain u) (ind_Row_mode u)));
          result = RegisterPixelMapperInternal result
                     (OfRotatePanel (RotatePanelPixelMapper_new (ind_RotatePanel_chain u)
                                       (ind_RotatePanel_parallel u)));
          result = RegisterPixelMapperInternal result
                     (OfReorder (ReorderPixelMapper_new (ind_Reorder_chain u)
                                   (ind_Reorder_parallel u)));
          result = RegisterPixelMapperInternal result (OfRotate RotatePixelMapper_new);
          result = RegisterPixelMapperInternal result (OfU UArrangementMapper_new);
          result = RegisterPixelMapperInternal result
                     (OfVertical (VerticalMapper_new (ind_Vertical_z u) (ind_Vertical_chain u)
                                    (ind_Vertical_parallel u)));
          result = RegisterPixelMapperInternal result (OfMirror MirrorPixelMapper_new)
      in result)"

text \<open>
  \<open>FindPixelMapper\<close> returns the mapper found (\<open>None\<close> for the NULL result), the
  registry after the call (\<open>SetParameters\<close> runs on the registered object itself) and
  what was printed.
\<close>

definition FindPixelMapper ::
  "MapperByName \<Rightarrow> string \<Rightarrow> int \<Rightarrow> int \<Rightarrow> string option
    \<Rightarrow> PixelMapper option \<times> MapperByName \<times> diagnostic list" where
  "FindPixelMapper registry name chain parallel parameter =
     (let lower_name = map tolower name
      in case registry lower_name of
           None \<Rightarrow> (None, registry, [NoSuchMapper name])
         | Some mapper \<Rightarrow>
             (case SetParameters mapper chain parallel parameter of
                (ok, mapper', diags) \<Rightarrow>
                  (if ok then Some mapper' else None,
                   registry(lower_name \<mapsto> mapper'), diags)))"


section \<open>Names up to case, and the registered mappers\<close>

text \<open>
  What the specification means by a case-insensitive name, stated without the code's
  \<open>tolower\<close>: \<open>ascii_lower\<close> replaces each of the 26 capital letters by its small
  letter, from a table, and two names are equal up to case when they agree after that.
  \<open>builtin_mappers\<close> lists the seven objects that \<open>CreateMapperMap\<close> registers, and
  \<open>configured\<close> is what a lookup returns for a mapper it has found.
\<close>

definition ascii_lower :: "char \<Rightarrow> char" where
  "ascii_lower c =
     (case map_of (zip ''ABCDEFGHIJKLMNOPQRSTUVWXYZ'' ''abcdefghijklmnopqrstuvwxyz'') c of
        Some l \<Rightarrow> l
      | None \<Rightarrow> c)"

definition equal_ignoring_case :: "string \<Rightarrow> string \<Rightarrow> bool" where
  "equal_ignoring_case a b = (map ascii_lower a = map ascii_lower b)"

definition builtin_mappers :: "indeterminate \<Rightarrow> PixelMapper list" where
  "builtin_mappers u =
     [OfRow (RowArrangementMapper_new (ind_Row_chain u) (ind_Row_mode u)),
      OfRotatePanel (RotatePanelPixelMapper_new (ind_RotatePanel_chain u)
                       (ind_RotatePanel_parallel u)),
      OfReorder (ReorderPixelMapper_new (ind_Reorder_chain u) (ind_Reorder_parallel u)),
      OfRotate RotatePixelMapper_new,
      OfU UArrangementMapper_new,
      OfVertical (VerticalMapper_new (ind_Vertical_z u) (ind_Vertical_chain u)
                    (ind_Vertical_parallel u)),
      OfMirror MirrorPixelMapper_new]"

definition configured ::
  "PixelMapper \<Rightarrow> int \<Rightarrow> int \<Rightarrow> string option \<Rightarrow> PixelMapper option" where
  "configured mapper chain parallel parameter =
     (case SetParameters mapper chain parallel parameter of
        (ok, mapper', diags) \<Rightarrow> if ok then Some mapper' else None)"

section \<open>The conditions under which a mapping is promised to be in range\<close>

text \<open>
  \<open>statics_current\<close>: the function-local statics are uninitialised or hold the
  panel size of the matrix at hand. \<open>within_design\<close> collects, for each class, what a
  call has to satisfy beyond an accepted configuration.
  \<^item> Rotate-panel: a pixel on a panel with no registered angle, or with the angle 0, needs
    nothing more. The visible size is the matrix size, so a quarter turn (90 or 270) can
    only stay inside a square panel. The half turn (180) is promised for square panels
    too: its two formulas use \<open>panel_rows_\<close> for the column and \<open>panel_cols_\<close> for
    the row, which is only right when the two are equal. Any other stored angle matches
    no case of the \<open>switch\<close>.
  \<^item> Reorder: a pixel on a panel without a registered destination needs nothing more; on a
    panel with one, the destination column \<open>to % (parallel_ - 1)\<close> and row
    \<open>to / (parallel_ - 1)\<close> that the call computes have to exist and lie in the grid.
  \<^item> Rotate: the stored angle is one of the four cases of the \<open>switch\<close>.
\<close>

definition statics_current :: "panel_statics \<Rightarrow> int \<Rightarrow> int \<Rightarrow> bool" where
  "statics_current st pw ph =
     ((panel_cols st = None \<or> panel_cols st = Some pw)
      \<and> (panel_rows st = None \<or> panel_rows st = Some ph))"

fun within_design ::
  "PixelMapper \<Rightarrow> mapper_statics \<Rightarrow> int \<Rightarrow> int \<Rightarrow> int \<Rightarrow> int \<Rightarrow> bool" where
  "within_design (OfRotatePanel m) g pw ph x y =
     (statics_current (RotatePanel_statics g) pw ph
      \<and> (case RotatePanel_panels m ((y sdiv ph) * RotatePanel_chain m + x sdiv pw) of
            None \<Rightarrow> True
          | Some angle \<Rightarrow> angle = 0 \<or> (angle \<in> {90, 180, 270} \<and> pw = ph)))"
| "within_design (OfReorder m) g pw ph x y =
     (statics_current (Reorder_statics g) pw ph
      \<and> (case Reorder_panels m ((y sdiv ph) * Reorder_chain m + x sdiv pw) of
            None \<Rightarrow> True
          | Some panel_to_index \<Rightarrow>
              Reorder_parallel m \<noteq> 1
              \<and> 0 \<le> panel_to_index smod (Reorder_parallel m - 1)
              \<and> panel_to_index smod (Reorder_parallel m - 1) < Reorder_chain m
              \<and> 0 \<le> panel_to_index sdiv (Reorder_parallel m - 1)
              \<and> panel_to_index sdiv (Reorder_parallel m - 1) < Reorder_parallel m))"
| "within_design (OfRotate m) g pw ph x y = (Rotate_angle m \<in> {0, 90, 180, 270})"
| "within_design (OfRow m) g pw ph x y = True"
| "within_design (OfU m) g pw ph x y = True"
| "within_design (OfVertical m) g pw ph x y = True"
| "within_design (OfMirror m) g pw ph x y = True"

section \<open>Parameter strings made of pairs\<close>

text \<open>
  The list grammar of the rotate-panel and reorder parameters, as the specification
  describes it: pairs \<open>a|b\<close> joined by commas. \<open>decimal_value\<close> is the number that a
  string of digits denotes, of any size; \<open>fits_int\<close> says that it is at most
  \<open>INT_MAX\<close>. A pair is acceptable when both fields are digits only, the first denotes a
  panel index of the topology and the second a multiple of 90 (rotate-panel) or a panel
  index (reorder); \<open>register_pair\<close> stores an acceptable pair and skips any other. These
  definitions state the skip-and-continue policy that the loops of \<open>SetParameters\<close> are
  compared with.
\<close>

definition field_ok :: "string \<Rightarrow> bool" where
  "field_ok s = (s \<noteq> [] \<and> CHR '','' \<notin> set s \<and> CHR ''|'' \<notin> set s)"

definition pair_token :: "string \<times> string \<Rightarrow> string" where
  "pair_token ab = fst ab @ CHR ''|'' # snd ab"

fun join_commas :: "string list \<Rightarrow> string" where
  "join_commas [] = []"
| "join_commas [t] = t"
| "join_commas (t # u # ts) = t @ CHR '','' # join_commas (u # ts)"

definition decimal_value :: "string \<Rightarrow> int" where
  "decimal_value s = foldl (\<lambda>a c. 10 * a + digit_value c) 0 s"

definition INT_MAX :: int where
  "INT_MAX = 2 ^ 31 - 1"

definition fits_int :: "string \<Rightarrow> bool" where
  "fits_int s = (list_all isdigit s \<longrightarrow> decimal_value s \<le> INT_MAX)"

definition RotatePanel_pair_ok :: "int \<Rightarrow> string \<times> string \<Rightarrow> bool" where
  "RotatePanel_pair_ok panel_count ab =
     (list_all isdigit (fst ab) \<and> list_all isdigit (snd ab)
      \<and> decimal_value (fst ab) \<le> panel_count - 1 \<and> decimal_value (snd ab) smod 90 = 0)"

definition Reorder_pair_ok :: "int \<Rightarrow> string \<times> string \<Rightarrow> bool" where
  "Reorder_pair_ok panel_count ab =
     (list_all isdigit (fst ab) \<and> list_all isdigit (snd ab)
      \<and> decimal_value (fst ab) \<le> panel_count - 1
      \<and> decimal_value (snd ab) \<le> panel_count - 1)"

definition register_pair ::
  "(string \<times> string \<Rightarrow> bool) \<Rightarrow> (int \<rightharpoonup> int) \<Rightarrow> string \<times> string \<Rightarrow> (int \<rightharpoonup> int)" where
  "register_pair ok panels ab =
     (if ok ab then panels(decimal_value (fst ab) \<mapsto> decimal_value (snd ab)) else panels)"

section \<open>Basic facts about the error monad and C arithmetic\<close>

lemma bindE_Inl [simp]: "bindE (Inl e) f = Inl e"
  by (simp add: bindE_def)

lemma bindE_Inr [simp]: "bindE (Inr v) f = f v"
  by (simp add: bindE_def)

lemma c_div_nonzero: "b \<noteq> 0 \<Longrightarrow> c_div a b = Inr (a sdiv b)"
  by (simp add: c_div_def)

lemma c_mod_nonzero: "b \<noteq> 0 \<Longrightarrow> c_mod a b = Inr (a smod b)"
  by (simp add: c_mod_def)

lemma c_div_zero [simp]: "c_div a 0 = Inl DivisionByZero"
  by (simp add: c_div_def)

lemma c_mod_zero [simp]: "c_mod a 0 = Inl DivisionByZero"
  by (simp add: c_mod_def)

lemma sdiv_nonneg: "0 \<le> a \<Longrightarrow> 0 < b \<Longrightarrow> a sdiv b = a div (b::int)"
  by (simp add: signed_divide_int_def sgn_if)

lemma smod_nonneg: "0 \<le> a \<Longrightarrow> 0 < b \<Longrightarrow> a smod b = a mod (b::int)"
  by (simp add: signed_modulo_int_def sgn_if)

section \<open>Row-mapper: parameters and visible size\<close>

text \<open>
  Claim C7 says that the row mapper's \<open>SetParameters\<close> (with \<open>parallel \<ge> 2\<close>) fails for
  every multi-character parameter string. The code prints the single-character diagnostic
  for such a string and then falls through to the stores and \<open>return true\<close>: with
  \<open>chain = 1\<close>, \<open>parallel = 2\<close> and the parameter \<open>HV\<close> the call succeeds and
  configures the mode \<open>normal\<close>.
\<close>

theorem Row_SetParameters_multi_character_accepted:
  "RowArrangementMapper_SetParameters m 1 2 (Some ''HV'') =
     (True, m\<lparr>Row_chain := 1, Row_parallel := 2, Row_mode := normal\<rparr>, [RowSingleCharacter])"
  by (simp add: RowArrangementMapper_SetParameters_def)

lemma Row_SetParameters_accepted:
  assumes "RowArrangementMapper_SetParameters m0 chain parallel param = (True, m, diags)"
  shows "Row_chain m = chain" and "Row_parallel m = parallel" and "2 \<le> parallel"
  using assms
  by (auto simp: RowArrangementMapper_SetParameters_def Let_def split: if_splits option.splits)

text \<open>
  Claim C8: for a row mapper that \<open>SetParameters\<close> has configured (with a chain length
  other than zero), \<open>GetSizeMapping\<close> succeeds with
  \<open>visible_height = matrix_height / parallel\<close> in every mode,
  \<open>visible_width = matrix_width * parallel\<close> in normal mode and
  \<open>matrix_width * parallel - 2 * (matrix_width / chain)\<close> in both banded modes, the
  divisions being C's; for \<open>parallel = 3\<close> in normal mode a 192 by 32 matrix gives
  576 by 10.
\<close>

theorem Row_GetSizeMapping_formula:
  assumes "RowArrangementMapper_SetParameters m0 chain parallel param = (True, m, diags)"
    and "chain \<noteq> 0"
  shows "RowArrangementMapper_GetSizeMapping m matrix_width matrix_height =
           Inr (True,
                (if Row_mode m = normal then matrix_width * parallel
                 else matrix_width * parallel - 2 * (matrix_width sdiv chain)),
                matrix_height sdiv parallel)
         \<and> (parallel = 3 \<and> Row_mode m = normal \<longrightarrow>
              RowArrangementMapper_GetSizeMapping m 192 32 = Inr (True, 576, 10))"
proof -
  have c: "Row_chain m = chain" and p: "Row_parallel m = parallel" and p2: "2 \<le> parallel"
    using Row_SetParameters_accepted [OF assms(1)] by simp_all
  have gen: "RowArrangementMapper_GetSizeMapping m w h =
           Inr (True,
                (if Row_mode m = normal then w * parallel
                 else w * parallel - 2 * (w sdiv chain)),
                h sdiv parallel)" for w h
    using assms(2) p2
    by (cases "Row_mode m")
       (simp_all add: RowArrangementMapper_GetSizeMapping_def c p c_div_nonzero)
  have "(32::int) sdiv 3 = 10"
    by (simp add: signed_divide_int_def)
  with gen [of 192 32] show ?thesis
    using gen [of matrix_width matrix_height] by simp
qed

theorem Row_GetSizeMapping_formula_witness:
  "RowArrangementMapper_GetSizeMapping
     \<lparr>Row_chain = 3, Row_parallel = 3, Row_mode = normal\<rparr> 192 32 = Inr (True, 576, 10)"
proof -
  have h: "RowArrangementMapper_SetParameters (RowArrangementMapper_new 0 band_vertical) 3 3 None
             = (True, \<lparr>Row_chain = 3, Row_parallel = 3, Row_mode = normal\<rparr>, [])"
    by (simp add: RowArrangementMapper_SetParameters_def RowArrangementMapper_new_def)
  have n: "(3::int) \<noteq> 0" by simp
  show ?thesis
    using Row_GetSizeMapping_formula [OF h n, of 192 32] by simp
qed

section \<open>Rotate-panel: the stored angle\<close>

text \<open>
  Claim C2 says that an accepted angle is normalised into 0, 90, 180 or 270 before it is
  stored. The code stores the value of \<open>atoi\<close> as it is: on a fresh mapper with one
  panel, the parameter \<open>0|360\<close> registers 360 for panel 0, and \<open>MapVisibleToMatrix\<close>
  then matches none of its four cases and returns without writing its outputs.
\<close>

theorem RotatePanel_SetParameters_stores_360:
  "RotatePanel_panels
     (fst (snd (RotatePanelPixelMapper_SetParameters (RotatePanelPixelMapper_new c0 p0) 1 1
                  (Some ''0|360'')))) 0 = Some 360
   \<and> RotatePanelPixelMapper_MapVisibleToMatrix
       (fst (snd (RotatePanelPixelMapper_SetParameters (RotatePanelPixelMapper_new c0 p0) 1 1
                    (Some ''0|360''))))
       statics_uninitialised 32 32 5 7
     = Inr (\<lparr>panel_cols = Some 32, panel_rows = Some 32\<rparr>, None)"
  by code_simp


section \<open>Rotate-panel and Reorder: the cached panel size\<close>

text \<open>
  Claim C4 says that \<open>MapVisibleToMatrix\<close> of the rotate-panel and reorder mappers
  computes the panel size from the arguments of the current call, so that equal arguments
  and equal configuration give equal results whatever an earlier call was given. The code
  keeps the panel size in function-local statics that the first call initialises: the
  call \<open>(64, 64, 0, 0)\<close> on a mapper configured with \<open>0|90\<close> gives \<open>(63, 0)\<close>
  as the first call of the process and \<open>(31, 0)\<close> after a call with a 32 by 32 matrix;
  for the reorder mapper configured with \<open>1|0\<close> (two chains of two panels) the call
  \<open>(64, 64, 40, 0)\<close> gives \<open>(8, 0)\<close> as the first call and \<open>(40, 0)\<close> after a
  call with a 32 by 32 matrix.
\<close>

theorem MapVisibleToMatrix_depends_on_first_call:
  "(let m = fst (snd (RotatePanelPixelMapper_SetParameters (RotatePanelPixelMapper_new c0 p0)
                        1 1 (Some ''0|90'')));
        cached = \<lparr>panel_cols = Some 32, panel_rows = Some 32\<rparr>
    in RotatePanelPixelMapper_MapVisibleToMatrix m statics_uninitialised 32 32 0 0
         = Inr (cached, Some (31, 0))
     \<and> RotatePanelPixelMapper_MapVisibleToMatrix m cached 64 64 0 0
         = Inr (cached, Some (31, 0))
     \<and> RotatePanelPixelMapper_MapVisibleToMatrix m statics_uninitialised 64 64 0 0
         = Inr (\<lparr>panel_cols = Some 64, panel_rows = Some 64\<rparr>, Some (63, 0)))
   \<and> (let m = fst (snd (ReorderPixelMapper_SetParameters (ReorderPixelMapper_new c1 p1)
                        2 2 (Some ''1|0'')));
        cached = \<lparr>panel_cols = Some 16, panel_rows = Some 16\<rparr>
    in ReorderPixelMapper_MapVisibleToMatrix m statics_uninitialised 32 32 0 0
         = Inr (cached, Some (0, 0))
     \<and> ReorderPixelMapper_MapVisibleToMatrix m cached 64 64 40 0
         = Inr (cached, Some (40, 0))
     \<and> ReorderPixelMapper_MapVisibleToMatrix m statics_uninitialised 64 64 40 0
         = Inr (\<lparr>panel_cols = Some 32, panel_rows = Some 32\<rparr>, Some (8, 0)))"
  by code_simp

section \<open>The registry\<close>

lemma tolower_names:
  "map tolower ''ROW-MAPPER'' = ''row-mapper''"
  "map tolower ''row-mapper'' = ''row-mapper''"
  "map tolower ''no-such-mapper'' = ''no-such-mapper''"
  "map tolower ''Row-mapper'' = ''row-mapper''"
  "map tolower ''Rotate-panel'' = ''rotate-panel''"
  "map tolower ''Reorder'' = ''reorder''"
  "map tolower ''Rotate'' = ''rotate''"
  "map tolower ''U-mapper'' = ''u-mapper''"
  "map tolower ''V-mapper'' = ''v-mapper''"
  "map tolower ''Mirror'' = ''mirror''"
  by code_simp+

lemma upper_case_codes:
  "map (of_char :: char \<Rightarrow> nat) ''ABCDEFGHIJKLMNOPQRSTUVWXYZ'' = [65..<91]"
  by (simp add: upt_rec_numeral)

lemma upper_case_letter:
  "c \<in> set ''ABCDEFGHIJKLMNOPQRSTUVWXYZ''
     \<longleftrightarrow> 65 \<le> (of_char c :: nat) \<and> (of_char c :: nat) \<le> 90"
proof -
  have "(of_char c :: nat) \<in> set (map of_char ''ABCDEFGHIJKLMNOPQRSTUVWXYZ'')
          \<longleftrightarrow> c \<in> set ''ABCDEFGHIJKLMNOPQRSTUVWXYZ''"
    unfolding set_map by (auto simp del: set_simps list.set)
  moreover have "(of_char c :: nat) \<in> set [65..<91]
          \<longleftrightarrow> 65 \<le> (of_char c :: nat) \<and> (of_char c :: nat) \<le> 90"
    unfolding set_upt by auto
  ultimately show ?thesis
    unfolding upper_case_codes by simp
qed

lemma tolower_upper_case:
  "\<forall>c\<in>set ''ABCDEFGHIJKLMNOPQRSTUVWXYZ''. tolower c = ascii_lower c"
  by code_simp

lemma tolower_ascii_lower: "tolower c = ascii_lower c"
proof (cases "c \<in> set ''ABCDEFGHIJKLMNOPQRSTUVWXYZ''")
  case True
  with tolower_upper_case show ?thesis by blast
next
  case False
  have len: "length ''ABCDEFGHIJKLMNOPQRSTUVWXYZ'' = length ''abcdefghijklmnopqrstuvwxyz''"
    by simp
  from False map_of_zip_is_None [OF len, of c]
  have nm: "map_of (zip ''ABCDEFGHIJKLMNOPQRSTUVWXYZ'' ''abcdefghijklmnopqrstuvwxyz'') c = None"
    by blast
  have "ascii_lower c = c"
    unfolding ascii_lower_def nm by simp
  moreover from False have "tolower c = c"
    unfolding upper_case_letter by (auto simp: tolower_def Let_def)
  ultimately show ?thesis by simp
qed

lemma map_tolower_ascii_lower: "map tolower s = map ascii_lower s"
  by (simp add: tolower_ascii_lower)

lemma ascii_lower_names:
  "map ascii_lower ''Row-mapper'' = ''row-mapper''"
  "map ascii_lower ''Rotate-panel'' = ''rotate-panel''"
  "map ascii_lower ''Reorder'' = ''reorder''"
  "map ascii_lower ''Rotate'' = ''rotate''"
  "map ascii_lower ''U-mapper'' = ''u-mapper''"
  "map ascii_lower ''V-mapper'' = ''v-mapper''"
  "map ascii_lower ''Mirror'' = ''mirror''"
  "map ascii_lower ''ROW-MAPPER'' = ''row-mapper''"
  "map ascii_lower ''row-mapper'' = ''row-mapper''"
  "map ascii_lower ''no-such-mapper'' = ''no-such-mapper''"
  by (simp_all add: ascii_lower_def)

lemma CreateMapperMap_lookup:
  "CreateMapperMap u key =
     (if key = ''mirror'' then Some (OfMirror MirrorPixelMapper_new)
      else if key = ''v-mapper''
      then Some (OfVertical (VerticalMapper_new (ind_Vertical_z u) (ind_Vertical_chain u)
                               (ind_Vertical_parallel u)))
      else if key = ''u-mapper'' then Some (OfU UArrangementMapper_new)
      else if key = ''rotate'' then Some (OfRotate RotatePixelMapper_new)
      else if key = ''reorder''
      then Some (OfReorder (ReorderPixelMapper_new (ind_Reorder_chain u)
                              (ind_Reorder_parallel u)))
      else if key = ''rotate-panel''
      then Some (OfRotatePanel (RotatePanelPixelMapper_new (ind_RotatePanel_chain u)
                                  (ind_RotatePanel_parallel u)))
      else if key = ''row-mapper''
      then Some (OfRow (RowArrangementMapper_new (ind_Row_chain u) (ind_Row_mode u)))
      else None)"
  unfolding CreateMapperMap_def RegisterPixelMapperInternal_def Let_def GetName.simps
    tolower_names
  by (simp only: fun_upd_apply)


lemma equal_ignoring_case_key:
  "equal_ignoring_case name ''Row-mapper'' \<longleftrightarrow> map tolower name = ''row-mapper''"
  "equal_ignoring_case name ''Rotate-panel'' \<longleftrightarrow> map tolower name = ''rotate-panel''"
  "equal_ignoring_case name ''Reorder'' \<longleftrightarrow> map tolower name = ''reorder''"
  "equal_ignoring_case name ''Rotate'' \<longleftrightarrow> map tolower name = ''rotate''"
  "equal_ignoring_case name ''U-mapper'' \<longleftrightarrow> map tolower name = ''u-mapper''"
  "equal_ignoring_case name ''V-mapper'' \<longleftrightarrow> map tolower name = ''v-mapper''"
  "equal_ignoring_case name ''Mirror'' \<longleftrightarrow> map tolower name = ''mirror''"
  unfolding equal_ignoring_case_def ascii_lower_names map_tolower_ascii_lower by (rule refl)+

lemma FindPixelMapper_found:
  assumes "registry (map tolower name) = Some mapper"
  shows "fst (FindPixelMapper registry name chain parallel parameter)
           = configured mapper chain parallel parameter"
  using assms by (simp add: FindPixelMapper_def configured_def split: prod.splits)

lemma FindPixelMapper_not_found:
  assumes "registry (map tolower name) = None"
  shows "FindPixelMapper registry name chain parallel parameter
           = (None, registry, [NoSuchMapper name])"
  using assms by (simp add: FindPixelMapper_def)

text \<open>
  Claim C9: lookup is case-insensitive. In any registry, two names that are equal up to the
  case of their letters give the same result and leave the same registry behind. In the
  registry that \<open>CreateMapperMap\<close> builds, a name that equals the name of one of the
  seven registered mappers up to case finds that mapper, configured by its own
  \<open>SetParameters\<close> (or nothing, where that fails); a name that equals none of the seven
  up to case returns no mapper, leaves the registry as it was and prints that there is no
  such mapper. \<open>ROW-MAPPER\<close> equals both \<open>row-mapper\<close> and the row mapper's name up
  to case, and \<open>no-such-mapper\<close> equals none of the seven names.
\<close>

theorem FindPixelMapper_ignores_case:
  "(equal_ignoring_case a b \<longrightarrow>
      fst (FindPixelMapper registry a chain parallel parameter)
        = fst (FindPixelMapper registry b chain parallel parameter)
      \<and> fst (snd (FindPixelMapper registry a chain parallel parameter))
        = fst (snd (FindPixelMapper registry b chain parallel parameter)))
   \<and> (\<forall>mapper\<in>set (builtin_mappers u).
         equal_ignoring_case name (GetName mapper) \<longrightarrow>
         fst (FindPixelMapper (CreateMapperMap u) name chain parallel parameter)
           = configured mapper chain parallel parameter)
   \<and> ((\<forall>mapper\<in>set (builtin_mappers u). \<not> equal_ignoring_case name (GetName mapper)) \<longrightarrow>
         FindPixelMapper (CreateMapperMap u) name chain parallel parameter
           = (None, CreateMapperMap u, [NoSuchMapper name]))
   \<and> equal_ignoring_case ''ROW-MAPPER'' ''row-mapper''
   \<and> equal_ignoring_case ''ROW-MAPPER'' ''Row-mapper''
   \<and> (\<forall>mapper\<in>set (builtin_mappers u).
         \<not> equal_ignoring_case ''no-such-mapper'' (GetName mapper))"
proof -
  have same: "fst (FindPixelMapper registry a chain parallel parameter)
        = fst (FindPixelMapper registry b chain parallel parameter)
      \<and> fst (snd (FindPixelMapper registry a chain parallel parameter))
        = fst (snd (FindPixelMapper registry b chain parallel parameter))"
    if "equal_ignoring_case a b"
  proof -
    from that have k: "map tolower a = map tolower b"
      by (simp add: equal_ignoring_case_def map_tolower_ascii_lower)
    show ?thesis
      unfolding FindPixelMapper_def Let_def k
      by (simp split: option.splits prod.splits)
  qed
  have found: "fst (FindPixelMapper (CreateMapperMap u) name chain parallel parameter)
                 = configured mapper chain parallel parameter"
    if "mapper \<in> set (builtin_mappers u)" "equal_ignoring_case name (GetName mapper)"
    for mapper
  proof -
    from that have "CreateMapperMap u (map tolower name) = Some mapper"
      unfolding builtin_mappers_def
      by (auto simp: equal_ignoring_case_key CreateMapperMap_lookup)
    then show ?thesis by (rule FindPixelMapper_found)
  qed
  have missing: "FindPixelMapper (CreateMapperMap u) name chain parallel parameter
                   = (None, CreateMapperMap u, [NoSuchMapper name])"
    if "\<forall>mapper\<in>set (builtin_mappers u). \<not> equal_ignoring_case name (GetName mapper)"
  proof -
    from that have "CreateMapperMap u (map tolower name) = None"
      unfolding builtin_mappers_def
      by (simp add: equal_ignoring_case_key CreateMapperMap_lookup)
    then show ?thesis by (rule FindPixelMapper_not_found)
  qed
  have ex1: "equal_ignoring_case ''ROW-MAPPER'' ''row-mapper''"
    and ex2: "equal_ignoring_case ''ROW-MAPPER'' ''Row-mapper''"
    unfolding equal_ignoring_case_def ascii_lower_names by (rule refl)+
  have ex3: "\<forall>mapper\<in>set (builtin_mappers u).
               \<not> equal_ignoring_case ''no-such-mapper'' (GetName mapper)"
    unfolding builtin_mappers_def
    by (simp add: equal_ignoring_case_key tolower_names)
  from same found missing ex1 ex2 ex3 show ?thesis
    by blast
qed


theorem FindPixelMapper_ignores_case_witness:
  "fst (FindPixelMapper
          (CreateMapperMap \<lparr>ind_Row_chain = 0, ind_Row_mode = normal, ind_RotatePanel_chain = 0,
             ind_RotatePanel_parallel = 0, ind_Reorder_chain = 0, ind_Reorder_parallel = 0,
             ind_Vertical_z = False, ind_Vertical_chain = 0, ind_Vertical_parallel = 0\<rparr>)
          ''ROW-MAPPER'' 1 2 None)
     = fst (FindPixelMapper
          (CreateMapperMap \<lparr>ind_Row_chain = 0, ind_Row_mode = normal, ind_RotatePanel_chain = 0,
             ind_RotatePanel_parallel = 0, ind_Reorder_chain = 0, ind_Reorder_parallel = 0,
             ind_Vertical_z = False, ind_Vertical_chain = 0, ind_Vertical_parallel = 0\<rparr>)
          ''row-mapper'' 1 2 None)
   \<and> fst (FindPixelMapper
          (CreateMapperMap \<lparr>ind_Row_chain = 0, ind_Row_mode = normal, ind_RotatePanel_chain = 0,
             ind_RotatePanel_parallel = 0, ind_Reorder_chain = 0, ind_Reorder_parallel = 0,
             ind_Vertical_z = False, ind_Vertical_chain = 0, ind_Vertical_parallel = 0\<rparr>)
          ''ROW-MAPPER'' 1 2 None)
     = Some (OfRow \<lparr>Row_chain = 1, Row_parallel = 2, Row_mode = normal\<rparr>)
   \<and> fst (FindPixelMapper
          (CreateMapperMap \<lparr>ind_Row_chain = 0, ind_Row_mode = normal, ind_RotatePanel_chain = 0,
             ind_RotatePanel_parallel = 0, ind_Reorder_chain = 0, ind_Reorder_parallel = 0,
             ind_Vertical_z = False, ind_Vertical_chain = 0, ind_Vertical_parallel = 0\<rparr>)
          ''no-such-mapper'' 1 2 None) = None"
proof -
  define u where "u = \<lparr>ind_Row_chain = 0, ind_Row_mode = normal, ind_RotatePanel_chain = 0,
             ind_RotatePanel_parallel = 0, ind_Reorder_chain = 0, ind_Reorder_parallel = 0,
             ind_Vertical_z = False, ind_Vertical_chain = 0, ind_Vertical_parallel = 0\<rparr>"
  define row where "row = OfRow (RowArrangementMapper_new (ind_Row_chain u) (ind_Row_mode u))"
  note t1 = FindPixelMapper_ignores_case
    [of "''ROW-MAPPER''" "''row-mapper''" "CreateMapperMap u" 1 2 None u "''ROW-MAPPER''"]
  note t2 = FindPixelMapper_ignores_case
    [of "''ROW-MAPPER''" "''row-mapper''" "CreateMapperMap u" 1 2 None u "''no-such-mapper''"]
  have mem: "row \<in> set (builtin_mappers u)"
    by (simp add: builtin_mappers_def row_def)
  have name: "GetName row = ''Row-mapper''"
    by (simp add: row_def)
  have conf: "configured row 1 2 None
                = Some (OfRow \<lparr>Row_chain = 1, Row_parallel = 2, Row_mode = normal\<rparr>)"
    by (simp add: configured_def row_def RowArrangementMapper_SetParameters_def
          RowArrangementMapper_new_def)
  from t1 have same: "fst (FindPixelMapper (CreateMapperMap u) ''ROW-MAPPER'' 1 2 None)
                  = fst (FindPixelMapper (CreateMapperMap u) ''row-mapper'' 1 2 None)"
    by blast
  from t1 mem have "equal_ignoring_case ''ROW-MAPPER'' (GetName row) \<longrightarrow>
         fst (FindPixelMapper (CreateMapperMap u) ''ROW-MAPPER'' 1 2 None)
           = configured row 1 2 None"
    by blast
  moreover from t1 have "equal_ignoring_case ''ROW-MAPPER'' ''Row-mapper''"
    by blast
  ultimately have found: "fst (FindPixelMapper (CreateMapperMap u) ''ROW-MAPPER'' 1 2 None)
           = Some (OfRow \<lparr>Row_chain = 1, Row_parallel = 2, Row_mode = normal\<rparr>)"
    unfolding name conf by blast
  from t2 have missing: "FindPixelMapper (CreateMapperMap u) ''no-such-mapper'' 1 2 None
           = (None, CreateMapperMap u, [NoSuchMapper ''no-such-mapper''])"
    by blast
  show ?thesis
    unfolding u_def [symmetric] using same found missing by simp
qed

section \<open>Rotate: the round trip\<close>

lemma strtol_right_angles:
  "strtol ''90'' = (90, [])" "strtol ''180'' = (180, [])" "strtol ''270'' = (270, [])"
  by code_simp+

lemma Rotate_SetParameters_right_angles:
  "RotatePixelMapper_SetParameters m chain parallel (Some ''90'') = (True, m\<lparr>Rotate_angle := 90\<rparr>, [])"
  "RotatePixelMapper_SetParameters m chain parallel (Some ''180'') = (True, m\<lparr>Rotate_angle := 180\<rparr>, [])"
  "RotatePixelMapper_SetParameters m chain parallel (Some ''270'') = (True, m\<lparr>Rotate_angle := 270\<rparr>, [])"
  by (simp_all add: RotatePixelMapper_SetParameters_def strtol_right_angles
        int_of_long_def signed_modulo_int_def)

text \<open>
  Claim C3: let \<open>a\<close> be a rotate mapper configured with the angle 90, 180 or 270 and
  \<open>b\<close> one configured with 360 minus that angle. Both configurations succeed; the
  visible size of \<open>a\<close> for a matrix is the matrix size of \<open>b\<close>, whose visible size is
  that matrix again; and whatever \<open>a\<close> maps a visible coordinate to, \<open>b\<close> maps back
  to that coordinate.
\<close>

theorem Rotate_round_trip:
  assumes "(s, t) \<in> {(''90'', ''270''), (''180'', ''180''), (''270'', ''90'')}"
    and "RotatePixelMapper_SetParameters m0 chain parallel (Some s) = (ok1, a, d1)"
    and "RotatePixelMapper_SetParameters m1 chain parallel (Some t) = (ok2, b, d2)"
    and "RotatePixelMapper_GetSizeMapping a matrix_width matrix_height = Inr (r, vw, vh)"
    and "RotatePixelMapper_MapVisibleToMatrix a matrix_width matrix_height x y = Inr out"
  shows "ok1 \<and> ok2
         \<and> RotatePixelMapper_GetSizeMapping b vw vh = Inr (True, matrix_width, matrix_height)
         \<and> (\<exists>x' y'. out = Some (x', y')
               \<and> RotatePixelMapper_MapVisibleToMatrix b vw vh x' y' = Inr (Some (x, y)))"
proof -
  have size: "RotatePixelMapper_GetSizeMapping \<lparr>Rotate_angle = k\<rparr> w h =
                Inr (True, if k smod 180 = 0 then (w, h) else (h, w))" for k w h
    by (simp add: RotatePixelMapper_GetSizeMapping_def)
  have m90: "(90::int) smod 180 \<noteq> 0" and m180: "(180::int) smod 180 = 0"
    and m270: "(270::int) smod 180 \<noteq> 0"
    by (simp_all add: signed_modulo_int_def)
  from assms(1) consider
      (a90) "s = ''90''" "t = ''270''"
    | (a180) "s = ''180''" "t = ''180''"
    | (a270) "s = ''270''" "t = ''90''"
    by blast
  then show ?thesis
  proof cases
    case a90
    with assms(2,3) have ab: "ok1" "ok2" "a = m0\<lparr>Rotate_angle := 90\<rparr>"
      "b = m1\<lparr>Rotate_angle := 270\<rparr>"
      by (simp_all add: Rotate_SetParameters_right_angles)
    have a: "a = \<lparr>Rotate_angle = 90\<rparr>" and b: "b = \<lparr>Rotate_angle = 270\<rparr>"
      using ab(3,4) by simp_all
    from assms(4) have v: "vw = matrix_height" "vh = matrix_width"
      unfolding a size using m90 by simp_all
    from assms(5) have out: "out = Some (matrix_width - y - 1, x)"
      unfolding a by (simp add: RotatePixelMapper_MapVisibleToMatrix_def)
    show ?thesis
      unfolding b size v out using ab(1,2) m270
      by (simp add: RotatePixelMapper_MapVisibleToMatrix_def)
  next
    case a180
    with assms(2,3) have ab: "ok1" "ok2" "a = m0\<lparr>Rotate_angle := 180\<rparr>"
      "b = m1\<lparr>Rotate_angle := 180\<rparr>"
      by (simp_all add: Rotate_SetParameters_right_angles)
    have a: "a = \<lparr>Rotate_angle = 180\<rparr>" and b: "b = \<lparr>Rotate_angle = 180\<rparr>"
      using ab(3,4) by simp_all
    from assms(4) have v: "vw = matrix_width" "vh = matrix_height"
      unfolding a size using m180 by simp_all
    from assms(5) have out: "out = Some (matrix_width - x - 1, matrix_height - y - 1)"
      unfolding a by (simp add: RotatePixelMapper_MapVisibleToMatrix_def)
    show ?thesis
      unfolding b size v out using ab(1,2) m180
      by (simp add: RotatePixelMapper_MapVisibleToMatrix_def)
  next
    case a270
    with assms(2,3) have ab: "ok1" "ok2" "a = m0\<lparr>Rotate_angle := 270\<rparr>"
      "b = m1\<lparr>Rotate_angle := 90\<rparr>"
      by (simp_all add: Rotate_SetParameters_right_angles)
    have a: "a = \<lparr>Rotate_angle = 270\<rparr>" and b: "b = \<lparr>Rotate_angle = 90\<rparr>"
      using ab(3,4) by simp_all
    from assms(4) have v: "vw = matrix_height" "vh = matrix_width"
      unfolding a size using m270 by simp_all
    from assms(5) have out: "out = Some (y, matrix_height - x - 1)"
      unfolding a by (simp add: RotatePixelMapper_MapVisibleToMatrix_def)
    show ?thesis
      unfolding b size v out using ab(1,2) m90
      by (simp add: RotatePixelMapper_MapVisibleToMatrix_def)
  qed
qed

theorem Rotate_round_trip_witness:
  "RotatePixelMapper_MapVisibleToMatrix \<lparr>Rotate_angle = 90\<rparr> 64 32 3 5 = Inr (Some (58, 3))
   \<and> RotatePixelMapper_MapVisibleToMatrix \<lparr>Rotate_angle = 270\<rparr> 32 64 58 3 = Inr (Some (3, 5))"
proof -
  have h1: "(''90'', ''270'') \<in> {(''90'', ''270''), (''180'', ''180''), (''270'', ''90'')}"
    by simp
  have h2: "RotatePixelMapper_SetParameters RotatePixelMapper_new 2 1 (Some ''90'')
              = (True, \<lparr>Rotate_angle = 90\<rparr>, [])"
    by (simp add: Rotate_SetParameters_right_angles RotatePixelMapper_new_def)
  have h3: "RotatePixelMapper_SetParameters RotatePixelMapper_new 2 1 (Some ''270'')
              = (True, \<lparr>Rotate_angle = 270\<rparr>, [])"
    by (simp add: Rotate_SetParameters_right_angles RotatePixelMapper_new_def)
  have h4: "RotatePixelMapper_GetSizeMapping \<lparr>Rotate_angle = 90\<rparr> 64 32 = Inr (True, 32, 64)"
    by (simp add: RotatePixelMapper_GetSizeMapping_def signed_modulo_int_def)
  have h5: "RotatePixelMapper_MapVisibleToMatrix \<lparr>Rotate_angle = 90\<rparr> 64 32 3 5
              = Inr (Some (58, 3))"
    by (simp add: RotatePixelMapper_MapVisibleToMatrix_def)
  show ?thesis
    using Rotate_round_trip [OF h1 h2 h3 h4 h5] h5 by simp
qed

section \<open>Reorder: parallel = 1 and the empty parameter\<close>

lemma strtok_r_Nil [simp]: "strtok_r [] d = None"
  by (simp add: strtok_r_def)

lemma Reorder_outer_Nil [simp]: "Reorder_outer panel_count [] i panels diags = (panels, diags)"
  by (subst Reorder_outer.simps) simp

lemma RotatePanel_outer_Nil [simp]:
  "RotatePanel_outer panel_count [] i panels diags = (panels, diags)"
  by (subst RotatePanel_outer.simps) simp

lemma Reorder_SetParameters_fields:
  assumes "ReorderPixelMapper_SetParameters m0 chain parallel param = (ok, m, diags)"
  shows "ok" and "Reorder_chain m = chain" and "Reorder_parallel m = parallel"
  using assms
  by (auto simp: ReorderPixelMapper_SetParameters_def Let_def split: option.splits prod.splits)

text \<open>
  Claim C5: \<open>SetParameters\<close> of the reorder mapper accepts every topology, and for a
  pixel on a panel that has a registered destination (with a panel size other than zero in
  the statics, as initialised by this or an earlier call) \<open>MapVisibleToMatrix\<close> divides
  by zero exactly when \<open>parallel = 1\<close>.
\<close>

theorem Reorder_division_by_zero_iff_parallel_1:
  assumes "ReorderPixelMapper_SetParameters m0 chain parallel param = (ok, m, diags)"
    and "static_const_init (panel_cols st) (c_div matrix_width chain) = Inr pc"
    and "static_const_init (panel_rows st) (c_div matrix_height parallel) = Inr pr"
    and "pc \<noteq> 0" and "pr \<noteq> 0"
    and "Reorder_panels m ((y sdiv pr) * chain + x sdiv pc) = Some panel_to_index"
  shows "ok \<and> (ReorderPixelMapper_MapVisibleToMatrix m st matrix_width matrix_height x y
                 = Inl DivisionByZero \<longleftrightarrow> parallel = 1)"
proof -
  note f = Reorder_SetParameters_fields [OF assms(1)]
  show ?thesis
  proof (cases "parallel = 1")
    case True
    then show ?thesis
      using assms(2-6) f
      by (simp add: ReorderPixelMapper_MapVisibleToMatrix_def c_div_nonzero)
  next
    case False
    then have nz: "parallel - 1 \<noteq> 0" by simp
    have mx: "x sdiv pc \<noteq> 0 \<Longrightarrow> x sdiv pc * pc \<noteq> 0"
      using assms(4) by simp
    have my: "y sdiv pr \<noteq> 0 \<Longrightarrow> y sdiv pr * pr \<noteq> 0"
      using assms(5) by simp
    show ?thesis
      using assms(2-6) f False nz mx my
      by (simp add: ReorderPixelMapper_MapVisibleToMatrix_def c_div_nonzero c_mod_nonzero)
  qed
qed

theorem Reorder_division_by_zero_iff_parallel_1_witness:
  "ReorderPixelMapper_MapVisibleToMatrix
     (fst (snd (ReorderPixelMapper_SetParameters (ReorderPixelMapper_new 0 0) 2 1
                  (Some ''0|1''))))
     statics_uninitialised 64 32 0 0 = Inl DivisionByZero"
proof -
  let ?r = "ReorderPixelMapper_SetParameters (ReorderPixelMapper_new 0 0) 2 1 (Some ''0|1'')"
  have h1: "?r = (fst ?r, fst (snd ?r), snd (snd ?r))"
    by simp
  have h2: "static_const_init (panel_cols statics_uninitialised) (c_div 64 2) = Inr 32"
    by code_simp
  have h3: "static_const_init (panel_rows statics_uninitialised) (c_div 32 1) = Inr 32"
    by code_simp
  have h4: "(32::int) \<noteq> 0" by simp
  have h5: "Reorder_panels (fst (snd ?r)) ((0 sdiv 32) * 2 + 0 sdiv 32) = Some 1"
    by code_simp
  show ?thesis
    using Reorder_division_by_zero_iff_parallel_1 [OF h1 h2 h3 h4 h4 h5] by simp
qed




section \<open>Rotate-panel and Reorder: malformed and out-of-range pairs\<close>

lemma strtok_r_token_end:
  assumes "t \<noteq> []" and "d \<notin> set t"
  shows "strtok_r t d = Some (t, [])"
proof -
  have a: "dropWhile (\<lambda>c. c = d) t = t"
    using assms by (cases t) auto
  have b: "takeWhile (\<lambda>c. c \<noteq> d) t = t"
    using assms(2) by (induction t) auto
  have c: "dropWhile (\<lambda>c. c \<noteq> d) t = []"
    using assms(2) by (induction t) auto
  show ?thesis
    using assms(1) by (simp add: strtok_r_def a b c)
qed

lemma strtok_r_token_delim:
  assumes "t \<noteq> []" and "d \<notin> set t"
  shows "strtok_r (t @ d # rest) d = Some (t, rest)"
proof -
  have a: "dropWhile (\<lambda>c. c = d) (t @ d # rest) = t @ d # rest"
    using assms by (cases t) auto
  have b: "takeWhile (\<lambda>c. c \<noteq> d) (t @ d # rest) = t"
    using assms(2) by (induction t) auto
  have c: "dropWhile (\<lambda>c. c \<noteq> d) (t @ d # rest) = d # rest"
    using assms(2) by (induction t) auto
  show ?thesis
    unfolding strtok_r_def Let_def a b c using assms(1) by simp
qed

lemma smod_2_values: "(0::int) smod 2 = 0" "(1::int) smod 2 = 1"
  by (simp_all add: signed_modulo_int_def)

lemma RotatePanel_inner_pair:
  assumes "field_ok a" and "field_ok b"
  shows "RotatePanel_inner panel_count (pair_token (a, b)) 0 panel_index panels diags =
           (if \<not> list_all isdigit a then (panel_index, panels, diags @ [FoundNonDigit a])
            else if atoi a > panel_count - 1
            then (atoi a, panels, diags @ [PanelIndexTooHigh (atoi a) (panel_count - 1)])
            else if \<not> list_all isdigit b then (atoi a, panels, diags @ [FoundNonDigit b])
            else if atoi b smod 90 \<noteq> 0
            then (atoi a, panels, diags @ [InvalidRotationValue (atoi b)])
            else (atoi a, panels(atoi a \<mapsto> atoi b), diags))"
proof -
  have t1: "strtok_r (a @ CHR ''|'' # b) (CHR ''|'') = Some (a, b)"
    using assms(1) by (simp add: strtok_r_token_delim field_ok_def)
  have t2: "strtok_r b (CHR ''|'') = Some (b, [])"
    using assms(2) by (simp add: strtok_r_token_end field_ok_def)
  have fin: "RotatePanel_inner panel_count [] i pi pm ds = (pi, pm, ds)" for i pi pm ds
    by (subst RotatePanel_inner.simps) simp
  have second: "RotatePanel_inner panel_count b 1 pi panels diags =
           (if \<not> list_all isdigit b then (pi, panels, diags @ [FoundNonDigit b])
            else if atoi b smod 90 \<noteq> 0
            then (pi, panels, diags @ [InvalidRotationValue (atoi b)])
            else (pi, panels(pi \<mapsto> atoi b), diags))" for pi
    by (subst RotatePanel_inner.simps) (simp add: t2 fin smod_2_values Let_def)
  show ?thesis
    unfolding pair_token_def fst_conv snd_conv
    by (subst RotatePanel_inner.simps) (simp add: t1 second smod_2_values Let_def)
qed

lemma Reorder_inner_pair:
  assumes "field_ok a" and "field_ok b"
  shows "Reorder_inner panel_count (pair_token (a, b)) 0 panel_index panels diags =
           (if \<not> list_all isdigit a then (panel_index, panels, diags @ [FoundNonDigit a])
            else if atoi a > panel_count - 1
            then (atoi a, panels, diags @ [PanelIndexTooHigh (atoi a) (panel_count - 1)])
            else if \<not> list_all isdigit b then (atoi a, panels, diags @ [FoundNonDigit b])
            else if atoi b > panel_count - 1
            then (atoi a, panels, diags @ [PanelIndexTooHigh (atoi b) (panel_count - 1)])
            else (atoi a, panels(atoi a \<mapsto> atoi b), diags))"
proof -
  have t1: "strtok_r (a @ CHR ''|'' # b) (CHR ''|'') = Some (a, b)"
    using assms(1) by (simp add: strtok_r_token_delim field_ok_def)
  have t2: "strtok_r b (CHR ''|'') = Some (b, [])"
    using assms(2) by (simp add: strtok_r_token_end field_ok_def)
  have fin: "Reorder_inner panel_count [] i pi pm ds = (pi, pm, ds)" for i pi pm ds
    by (subst Reorder_inner.simps) simp
  have second: "Reorder_inner panel_count b 1 pi panels diags =
           (if \<not> list_all isdigit b then (pi, panels, diags @ [FoundNonDigit b])
            else if atoi b > panel_count - 1
            then (pi, panels, diags @ [PanelIndexTooHigh (atoi b) (panel_count - 1)])
            else (pi, panels(pi \<mapsto> atoi b), diags))" for pi
    by (subst Reorder_inner.simps) (simp add: t2 fin smod_2_values Let_def)
  show ?thesis
    unfolding pair_token_def fst_conv snd_conv
    by (subst Reorder_inner.simps) (simp add: t1 second smod_2_values Let_def)
qed


lemma isdigit_not_space_sign:
  assumes "isdigit c"
  shows "\<not> isspace c" and "c \<noteq> CHR ''-''" and "c \<noteq> CHR ''+''"
  using assms by (auto simp: isdigit_def isspace_def Let_def)

lemma digits_nonneg:
  assumes "list_all isdigit ds" and "0 \<le> a"
  shows "0 \<le> foldl (\<lambda>a c. 10 * a + digit_value c) a ds"
  using assms
proof (induction ds arbitrary: a)
  case Nil
  then show ?case by simp
next
  case (Cons d ds)
  from Cons.prems(1) have "isdigit d" and rest: "list_all isdigit ds" by simp_all
  then have "0 \<le> digit_value d"
    by (simp add: isdigit_def digit_value_def Let_def)
  with Cons.prems(2) have "0 \<le> 10 * a + digit_value d" by simp
  from Cons.IH [OF rest this] show ?case by simp
qed

lemma int_of_long_id:
  assumes "0 \<le> v" and "v \<le> INT_MAX"
  shows "int_of_long v = v"
proof -
  have "0 \<le> v + 2 ^ 31" and "v + 2 ^ 31 < 2 ^ 32"
    using assms by (simp_all add: INT_MAX_def)
  then have "(v + 2 ^ 31) mod 2 ^ 32 = v + 2 ^ 31"
    by (rule mod_pos_pos_trivial)
  then show ?thesis
    by (simp add: int_of_long_def)
qed

lemma atoi_decimal_value:
  assumes "s \<noteq> []" and "list_all isdigit s" and "decimal_value s \<le> INT_MAX"
  shows "atoi s = decimal_value s"
proof -
  obtain c cs where s: "s = c # cs"
    using assms(1) by (cases s) auto
  with assms(2) have c: "isdigit c" by simp
  note nc = isdigit_not_space_sign [OF c]
  have s1: "dropWhile isspace s = s"
    using nc(1) by (simp add: s)
  have tk: "takeWhile isdigit s = s"
    using assms(2) by (simp add: takeWhile_eq_all_conv list_all_iff)
  have dr: "dropWhile isdigit s = []"
    using assms(2) by (simp add: list_all_iff)
  have v0: "0 \<le> decimal_value s"
    unfolding decimal_value_def using digits_nonneg [OF assms(2)] by simp
  have sign: "hd s \<noteq> CHR ''-''" "hd s \<noteq> CHR ''+''"
    using nc(2,3) by (simp_all add: s)
  have "strtol s = (max LONG_MIN (min LONG_MAX (decimal_value s)), [])"
    unfolding strtol_def Let_def s1
    using sign assms(1) by (simp add: tk dr decimal_value_def)
  moreover have "max LONG_MIN (min LONG_MAX (decimal_value s)) = decimal_value s"
    using v0 assms(3) by (simp add: LONG_MIN_def LONG_MAX_def INT_MAX_def)
  ultimately show ?thesis
    using v0 assms(3) by (simp add: atoi_def int_of_long_id)
qed

lemma pair_token_is_token:
  assumes "field_ok (fst ab)" and "field_ok (snd ab)"
  shows "pair_token ab \<noteq> []" and "CHR '','' \<notin> set (pair_token ab)"
  using assms by (simp_all add: pair_token_def field_ok_def)

lemma field_atoi:
  assumes "field_ok s" and "fits_int s" and "list_all isdigit s"
  shows "atoi s = decimal_value s"
  using assms by (simp add: atoi_decimal_value field_ok_def fits_int_def)

lemma RotatePanel_inner_pair_effect:
  assumes "field_ok (fst ab)" and "field_ok (snd ab)"
    and "fits_int (fst ab)" and "fits_int (snd ab)"
  shows "\<exists>pi' d. RotatePanel_inner panel_count (pair_token ab) 0 panel_index panels diags =
                    (pi', register_pair (RotatePanel_pair_ok panel_count) panels ab, diags @ d)
                 \<and> length d = (if RotatePanel_pair_ok panel_count ab then 0 else 1)"
  using RotatePanel_inner_pair [OF assms(1,2), of panel_count panel_index panels diags]
    field_atoi [OF assms(1,3)] field_atoi [OF assms(2,4)]
  by (auto simp: register_pair_def RotatePanel_pair_ok_def)

lemma Reorder_inner_pair_effect:
  assumes "field_ok (fst ab)" and "field_ok (snd ab)"
    and "fits_int (fst ab)" and "fits_int (snd ab)"
  shows "\<exists>pi' d. Reorder_inner panel_count (pair_token ab) 0 panel_index panels diags =
                    (pi', register_pair (Reorder_pair_ok panel_count) panels ab, diags @ d)
                 \<and> length d = (if Reorder_pair_ok panel_count ab then 0 else 1)"
  using Reorder_inner_pair [OF assms(1,2), of panel_count panel_index panels diags]
    field_atoi [OF assms(1,3)] field_atoi [OF assms(2,4)]
  by (auto simp: register_pair_def Reorder_pair_ok_def)

lemma RotatePanel_outer_pairs:
  assumes "\<forall>ab\<in>set ts. field_ok (fst ab) \<and> field_ok (snd ab) \<and> fits_int (fst ab) \<and> fits_int (snd ab)"
  shows "\<exists>d. RotatePanel_outer panel_count (join_commas (map pair_token ts))
                 panel_index panels diags =
                (foldl (register_pair (RotatePanel_pair_ok panel_count)) panels ts, diags @ d)
             \<and> length d = length (filter (\<lambda>ab. \<not> RotatePanel_pair_ok panel_count ab) ts)"
  using assms
proof (induction ts arbitrary: panel_index panels diags)
  case Nil
  then show ?case by simp
next
  case (Cons ab ts)
  let ?ok = "RotatePanel_pair_ok panel_count"
  from Cons.prems have f: "field_ok (fst ab)" "field_ok (snd ab)"
    and fi: "fits_int (fst ab)" "fits_int (snd ab)"
    and rest: "\<forall>ab\<in>set ts. field_ok (fst ab) \<and> field_ok (snd ab) \<and> fits_int (fst ab) \<and> fits_int (snd ab)"
    by simp_all
  note tok = pair_token_is_token [OF f]
  obtain pi' d1 where inner:
    "RotatePanel_inner panel_count (pair_token ab) 0 panel_index panels diags =
       (pi', register_pair ?ok panels ab, diags @ d1)"
    and d1: "length d1 = (if ?ok ab then 0 else 1)"
    using RotatePanel_inner_pair_effect [OF f fi] by blast
  obtain d2 where outer:
    "RotatePanel_outer panel_count (join_commas (map pair_token ts)) pi'
       (register_pair ?ok panels ab) (diags @ d1) =
       (foldl (register_pair ?ok) (register_pair ?ok panels ab) ts, (diags @ d1) @ d2)"
    and d2: "length d2 = length (filter (\<lambda>ab. \<not> ?ok ab) ts)"
    using Cons.IH [OF rest] by blast
  have split: "strtok_r (join_commas (pair_token ab # map pair_token ts)) (CHR '','') =
                 Some (pair_token ab, join_commas (map pair_token ts))"
  proof (cases ts)
    case Nil
    then show ?thesis using tok by (simp add: strtok_r_token_end)
  next
    case (Cons u us)
    then show ?thesis using tok by (simp add: strtok_r_token_delim)
  qed
  have "RotatePanel_outer panel_count (join_commas (map pair_token (ab # ts)))
          panel_index panels diags =
        (foldl (register_pair ?ok) panels (ab # ts), diags @ (d1 @ d2))"
    by (subst RotatePanel_outer.simps) (simp add: split inner outer)
  moreover have "length (d1 @ d2) = length (filter (\<lambda>ab. \<not> ?ok ab) (ab # ts))"
    using d1 d2 by simp
  ultimately show ?case by blast
qed

lemma Reorder_outer_pairs:
  assumes "\<forall>ab\<in>set ts. field_ok (fst ab) \<and> field_ok (snd ab) \<and> fits_int (fst ab) \<and> fits_int (snd ab)"
  shows "\<exists>d. Reorder_outer panel_count (join_commas (map pair_token ts))
                 panel_index panels diags =
                (foldl (register_pair (Reorder_pair_ok panel_count)) panels ts, diags @ d)
             \<and> length d = length (filter (\<lambda>ab. \<not> Reorder_pair_ok panel_count ab) ts)"
  using assms
proof (induction ts arbitrary: panel_index panels diags)
  case Nil
  then show ?case by simp
next
  case (Cons ab ts)
  let ?ok = "Reorder_pair_ok panel_count"
  from Cons.prems have f: "field_ok (fst ab)" "field_ok (snd ab)"
    and fi: "fits_int (fst ab)" "fits_int (snd ab)"
    and rest: "\<forall>ab\<in>set ts. field_ok (fst ab) \<and> field_ok (snd ab) \<and> fits_int (fst ab) \<and> fits_int (snd ab)"
    by simp_all
  note tok = pair_token_is_token [OF f]
  obtain pi' d1 where inner:
    "Reorder_inner panel_count (pair_token ab) 0 panel_index panels diags =
       (pi', register_pair ?ok panels ab, diags @ d1)"
    and d1: "length d1 = (if ?ok ab then 0 else 1)"
    using Reorder_inner_pair_effect [OF f fi] by blast
  obtain d2 where outer:
    "Reorder_outer panel_count (join_commas (map pair_token ts)) pi'
       (register_pair ?ok panels ab) (diags @ d1) =
       (foldl (register_pair ?ok) (register_pair ?ok panels ab) ts, (diags @ d1) @ d2)"
    and d2: "length d2 = length (filter (\<lambda>ab. \<not> ?ok ab) ts)"
    using Cons.IH [OF rest] by blast
  have split: "strtok_r (join_commas (pair_token ab # map pair_token ts)) (CHR '','') =
                 Some (pair_token ab, join_commas (map pair_token ts))"
  proof (cases ts)
    case Nil
    then show ?thesis using tok by (simp add: strtok_r_token_end)
  next
    case (Cons u us)
    then show ?thesis using tok by (simp add: strtok_r_token_delim)
  qed
  have "Reorder_outer panel_count (join_commas (map pair_token (ab # ts)))
          panel_index panels diags =
        (foldl (register_pair ?ok) panels (ab # ts), diags @ (d1 @ d2))"
    by (subst Reorder_outer.simps) (simp add: split inner outer)
  moreover have "length (d1 @ d2) = length (filter (\<lambda>ab. \<not> ?ok ab) (ab # ts))"
    using d1 d2 by simp
  ultimately show ?case by blast
qed

lemma register_pair_keeps:
  "k \<in> dom panels \<Longrightarrow> k \<in> dom (foldl (register_pair ok) panels ts)"
  by (induction ts arbitrary: panels) (simp_all add: register_pair_def)

lemma register_pair_dom:
  "ab \<in> set ts \<Longrightarrow> ok ab
    \<Longrightarrow> decimal_value (fst ab) \<in> dom (foldl (register_pair ok) panels ts)"
proof (induction ts arbitrary: panels)
  case Nil
  then show ?case by simp
next
  case (Cons c ts)
  show ?case
  proof (cases "ab = c")
    case True
    with Cons.prems(2) have "decimal_value (fst ab) \<in> dom (register_pair ok panels c)"
      by (simp add: register_pair_def)
    then show ?thesis
      by (simp add: register_pair_keeps)
  next
    case False
    with Cons.prems(1) have "ab \<in> set ts" by simp
    then show ?thesis
      using Cons.IH Cons.prems(2) by simp
  qed
qed

text \<open>
  The policy holds for every parameter string made of pairs \<open>a|b\<close> whose fields are
  non-empty, free of both delimiters and, where they are digits, denote a number that fits
  \<open>int\<close>: \<open>SetParameters\<close> reports success; the table after the call is the table
  before it with exactly the acceptable pairs stored, in order; one diagnostic is printed
  for each pair that is skipped; and the index of every acceptable pair is registered
  afterwards.
\<close>

lemma SetParameters_skips_bad_pairs:
  assumes "\<forall>ab\<in>set ts. field_ok (fst ab) \<and> field_ok (snd ab) \<and> fits_int (fst ab) \<and> fits_int (snd ab)"
  shows "(\<exists>d. RotatePanelPixelMapper_SetParameters rp chain parallel
                 (Some (join_commas (map pair_token ts))) =
               (True,
                rp\<lparr>RotatePanel_chain := chain, RotatePanel_parallel := parallel,
                   RotatePanel_panels :=
                     foldl (register_pair (RotatePanel_pair_ok (chain * parallel)))
                       (RotatePanel_panels rp) ts\<rparr>,
                d)
            \<and> length d = length (filter (\<lambda>ab. \<not> RotatePanel_pair_ok (chain * parallel) ab) ts))
       \<and> (\<exists>d. ReorderPixelMapper_SetParameters ro chain parallel
                 (Some (join_commas (map pair_token ts))) =
               (True,
                ro\<lparr>Reorder_chain := chain, Reorder_parallel := parallel,
                   Reorder_panels :=
                     foldl (register_pair (Reorder_pair_ok (chain * parallel)))
                       (Reorder_panels ro) ts\<rparr>,
                d)
            \<and> length d = length (filter (\<lambda>ab. \<not> Reorder_pair_ok (chain * parallel) ab) ts))
       \<and> (\<forall>ab\<in>set ts.
             (RotatePanel_pair_ok (chain * parallel) ab \<longrightarrow>
                decimal_value (fst ab) \<in> dom (RotatePanel_panels (fst (snd
                  (RotatePanelPixelMapper_SetParameters rp chain parallel
                     (Some (join_commas (map pair_token ts))))))))
           \<and> (Reorder_pair_ok (chain * parallel) ab \<longrightarrow>
                decimal_value (fst ab) \<in> dom (Reorder_panels (fst (snd
                  (ReorderPixelMapper_SetParameters ro chain parallel
                     (Some (join_commas (map pair_token ts)))))))))"
proof -
  obtain d1 where rp:
    "RotatePanel_outer (chain * parallel) (join_commas (map pair_token ts)) 0
       (RotatePanel_panels rp) [] =
     (foldl (register_pair (RotatePanel_pair_ok (chain * parallel))) (RotatePanel_panels rp) ts,
      [] @ d1)"
    and d1: "length d1 = length (filter (\<lambda>ab. \<not> RotatePanel_pair_ok (chain * parallel) ab) ts)"
    using RotatePanel_outer_pairs [OF assms] by blast
  obtain d2 where ro:
    "Reorder_outer (chain * parallel) (join_commas (map pair_token ts)) 0
       (Reorder_panels ro) [] =
     (foldl (register_pair (Reorder_pair_ok (chain * parallel))) (Reorder_panels ro) ts,
      [] @ d2)"
    and d2: "length d2 = length (filter (\<lambda>ab. \<not> Reorder_pair_ok (chain * parallel) ab) ts)"
    using Reorder_outer_pairs [OF assms] by blast
  have rp_eq: "RotatePanelPixelMapper_SetParameters rp chain parallel
                 (Some (join_commas (map pair_token ts))) =
               (True,
                rp\<lparr>RotatePanel_chain := chain, RotatePanel_parallel := parallel,
                   RotatePanel_panels :=
                     foldl (register_pair (RotatePanel_pair_ok (chain * parallel)))
                       (RotatePanel_panels rp) ts\<rparr>,
                d1)"
    by (simp add: RotatePanelPixelMapper_SetParameters_def rp)
  have ro_eq: "ReorderPixelMapper_SetParameters ro chain parallel
                 (Some (join_commas (map pair_token ts))) =
               (True,
                ro\<lparr>Reorder_chain := chain, Reorder_parallel := parallel,
                   Reorder_panels :=
                     foldl (register_pair (Reorder_pair_ok (chain * parallel)))
                       (Reorder_panels ro) ts\<rparr>,
                d2)"
    by (simp add: ReorderPixelMapper_SetParameters_def ro)
  have reg: "\<forall>ab\<in>set ts.
             (RotatePanel_pair_ok (chain * parallel) ab \<longrightarrow>
                decimal_value (fst ab) \<in> dom (RotatePanel_panels (fst (snd
                  (RotatePanelPixelMapper_SetParameters rp chain parallel
                     (Some (join_commas (map pair_token ts))))))))
           \<and> (Reorder_pair_ok (chain * parallel) ab \<longrightarrow>
                decimal_value (fst ab) \<in> dom (Reorder_panels (fst (snd
                  (ReorderPixelMapper_SetParameters ro chain parallel
                     (Some (join_commas (map pair_token ts))))))))"
    unfolding rp_eq ro_eq by (auto simp: register_pair_dom)
  show ?thesis
    using rp_eq ro_eq d1 d2 reg by blast
qed

text \<open>
  Claim C6 says that an out-of-range panel index causes its pair to be skipped with a
  diagnostic. The index is converted by \<open>atoi\<close> before it is compared with the panel
  count, and a number beyond \<open>int\<close> does not survive the conversion: with one panel, the
  rotate-panel parameter \<open>4294967296|90\<close> registers the angle 90 for panel 0 and the
  reorder parameter \<open>4294967296|0\<close> registers the destination 0 for panel 0, both with
  success and without any diagnostic.
\<close>

theorem SetParameters_registers_overflowing_index:
  "fst (RotatePanelPixelMapper_SetParameters (RotatePanelPixelMapper_new 0 0) 1 1
          (Some ''4294967296|90''))
   \<and> RotatePanel_panels (fst (snd (RotatePanelPixelMapper_SetParameters
          (RotatePanelPixelMapper_new 0 0) 1 1 (Some ''4294967296|90'')))) 0 = Some 90
   \<and> snd (snd (RotatePanelPixelMapper_SetParameters (RotatePanelPixelMapper_new 0 0) 1 1
          (Some ''4294967296|90''))) = []
   \<and> fst (ReorderPixelMapper_SetParameters (ReorderPixelMapper_new 0 0) 1 1
          (Some ''4294967296|0''))
   \<and> Reorder_panels (fst (snd (ReorderPixelMapper_SetParameters
          (ReorderPixelMapper_new 0 0) 1 1 (Some ''4294967296|0'')))) 0 = Some 0
   \<and> snd (snd (ReorderPixelMapper_SetParameters (ReorderPixelMapper_new 0 0) 1 1
          (Some ''4294967296|0''))) = []"
  by code_simp

section \<open>Range of the mapped coordinates\<close>

lemma div_panel:
  assumes "0 \<le> x" "0 < w" "x < n * w"
  shows "x div w < (n::int)"
proof (rule ccontr)
  assume "\<not> x div w < n"
  then have "n * w \<le> (x div w) * w"
    using assms(2) by (simp add: mult_right_mono)
  moreover have "(x div w) * w + x mod w = x"
    by simp
  moreover have "0 \<le> x mod w"
    using assms(2) by simp
  ultimately show False using assms(3) by linarith
qed

lemma offset_bound:
  assumes "0 \<le> q" "q < n" "r < w" "0 < (w::int)"
  shows "q * w + r < n * w"
proof -
  have "q + 1 \<le> n" using assms(2) by simp
  then have "(q + 1) * w \<le> n * w"
    using assms(4) by (simp add: mult_right_mono)
  then show ?thesis
    using assms(3) by (simp add: algebra_simps)
qed

lemma panel_offset:
  assumes "0 \<le> x" "0 < w" "x div w \<noteq> 0"
  shows "x mod (x div w * w) = x mod (w::int)"
proof -
  define q where "q = x div w"
  define r where "r = x mod w"
  have "0 \<le> q"
    using assms(1,2) by (simp add: q_def pos_imp_zdiv_nonneg_iff)
  then have q: "1 \<le> q"
    using assms(3) by (simp add: q_def)
  have r: "0 \<le> r" "r < w"
    using assms(2) by (simp_all add: r_def)
  have "w \<le> q * w"
    using q assms(2) by (simp add: mult_le_cancel_right1)
  then have lt: "r < q * w"
    using r by linarith
  have x: "x = q * w + r"
    by (simp add: q_def r_def)
  have "x mod (q * w) = r mod (q * w)"
    unfolding x by (rule mod_add_self1)
  also have "\<dots> = r"
    using r lt by simp
  finally show ?thesis
    by (simp add: q_def r_def)
qed

lemma c_div_nonneg: "0 \<le> a \<Longrightarrow> 0 < b \<Longrightarrow> c_div a b = Inr (a div b)"
  by (simp add: c_div_def sdiv_nonneg)

lemma c_mod_nonneg: "0 \<le> a \<Longrightarrow> 0 < b \<Longrightarrow> c_mod a b = Inr (a mod b)"
  by (simp add: c_mod_def smod_nonneg)

lemma in_panel:
  assumes "0 \<le> q" "q < n" "0 \<le> r" "r < w" "0 < (w::int)"
  shows "0 \<le> q * w + r \<and> q * w + r < n * w"
  using assms offset_bound [of q n r w] by simp

lemma pixel_in_grid:
  assumes "0 < w" "0 \<le> x" "x < n * (w::int)"
  shows "0 \<le> x div w" "x div w < n" "0 \<le> x mod w" "x mod w < w"
  using assms by (simp_all add: div_panel pos_imp_zdiv_nonneg_iff)

lemma Row_in_range:
  assumes topo: "0 < chain" "0 < parallel" "0 < pw" "0 < ph"
    and cfg: "Row_chain m = chain" "Row_parallel m = parallel"
    and size: "RowArrangementMapper_GetSizeMapping m (chain * pw) (parallel * ph)
                 = Inr (True, vw, vh)"
    and pix: "0 \<le> x" "x < vw" "0 \<le> y" "y < vh"
  shows "\<exists>mx my. RowArrangementMapper_MapVisibleToMatrix m (chain * pw) (parallel * ph) x y
                     = Inr (Some (mx, my))
                 \<and> 0 \<le> mx \<and> mx < chain * pw \<and> 0 \<le> my \<and> my < parallel * ph"
proof -
  define mw where "mw = chain * pw"
  have mw: "0 < mw"
    using topo by (simp add: mw_def)
  have pwd: "c_div mw chain = Inr pw" and phd: "c_div (parallel * ph) parallel = Inr ph"
    using topo by (simp_all add: mw_def c_div_nonneg)
  from size have vh: "vh = ph"
    and vw: "vw = (if Row_mode m = normal then mw * parallel else mw * parallel - pw * 2)"
    unfolding RowArrangementMapper_GetSizeMapping_def cfg mw_def [symmetric] pwd phd
    by (cases "Row_mode m"; simp)+
  have y: "y < ph" using pix(4) vh by simp
  have core: "0 \<le> x' mod mw \<and> x' mod mw < mw
              \<and> 0 \<le> (x' div mw) * ph + y \<and> (x' div mw) * ph + y < parallel * ph"
    if "0 \<le> x'" "x' < parallel * mw" for x'
    using pixel_in_grid [OF mw that] in_panel [of "x' div mw" parallel y ph] pix(3) y topo(4)
    by simp
  have comm: "mw * parallel = parallel * mw"
    by simp
  show ?thesis
  proof (cases "Row_mode m")
    case normal
    have xr: "x < parallel * mw"
      using pix(2) vw normal comm by simp
    have "RowArrangementMapper_MapVisibleToMatrix m mw (parallel * ph) x y
            = Inr (Some (x mod mw, (x div mw) * ph + y))"
      unfolding RowArrangementMapper_MapVisibleToMatrix_def cfg pwd phd
      using pix(1) mw normal by (simp add: c_div_nonneg c_mod_nonneg)
    then show ?thesis
      using core [OF pix(1) xr] unfolding mw_def by simp
  next
    case band_horizontal
    have "x < mw * parallel - pw * 2"
      using pix(2) vw band_horizontal by simp
    then have xr: "x < parallel * mw"
      using topo(3) comm by linarith
    have "RowArrangementMapper_MapVisibleToMatrix m mw (parallel * ph) x y
            = Inr (Some (x mod mw, (x div mw) * ph + y))"
      unfolding RowArrangementMapper_MapVisibleToMatrix_def cfg pwd phd
      using pix(1) mw band_horizontal by (simp add: c_div_nonneg c_mod_nonneg)
    then show ?thesis
      using core [OF pix(1) xr] unfolding mw_def by simp
  next
    case band_vertical
    have x0: "0 \<le> x + pw"
      using pix(1) topo(3) by simp
    have "x < mw * parallel - pw * 2"
      using pix(2) vw band_vertical by simp
    then have xr: "x + pw < parallel * mw"
      using topo(3) comm by linarith
    have "RowArrangementMapper_MapVisibleToMatrix m mw (parallel * ph) x y
            = Inr (Some ((x + pw) mod mw, ((x + pw) div mw) * ph + y))"
      unfolding RowArrangementMapper_MapVisibleToMatrix_def cfg pwd phd
      using pix(1) x0 mw band_vertical by (simp add: c_div_nonneg c_mod_nonneg)
    then show ?thesis
      using core [OF x0 xr] unfolding mw_def by simp
  qed
qed


lemma static_const_init_current:
  assumes "s = None \<or> s = Some v"
  shows "static_const_init s (Inr v) = Inr v"
  using assms by (auto simp: static_const_init_def)

lemma in_panel_offset:
  assumes "0 < w" "0 \<le> x"
  shows "(if x div w = 0 then Inr x else c_mod x (x div w * w)) = Inr (x mod (w::int))"
proof (cases "x div w = 0")
  case True
  then have "x mod w = x"
    using mult_div_mod_eq [of w x] by simp
  with True show ?thesis by simp
next
  case False
  have "0 \<le> x div w"
    using assms by (simp add: pos_imp_zdiv_nonneg_iff)
  with False have "0 < x div w * w"
    using assms(1) by (simp add: zero_less_mult_iff)
  then show ?thesis
    using False assms by (simp add: c_mod_nonneg panel_offset)
qed

lemma RotatePanel_in_range:
  assumes topo: "0 < chain" "0 < parallel" "0 < pw" "0 < ph"
    and cfg: "RotatePanel_chain m = chain" "RotatePanel_parallel m = parallel"
    and st: "statics_current st pw ph"
    and ang: "case RotatePanel_panels m ((y sdiv ph) * chain + x sdiv pw) of
                None \<Rightarrow> True
              | Some angle \<Rightarrow> angle = 0 \<or> (angle \<in> {90, 180, 270} \<and> pw = ph)"
    and pix: "0 \<le> x" "x < chain * pw" "0 \<le> y" "y < parallel * ph"
  shows "\<exists>st' mx my.
           RotatePanelPixelMapper_MapVisibleToMatrix m st (chain * pw) (parallel * ph) x y
             = Inr (st', Some (mx, my))
           \<and> 0 \<le> mx \<and> mx < chain * pw \<and> 0 \<le> my \<and> my < parallel * ph"
proof -
  define qx where "qx = x div pw"
  define qy where "qy = y div ph"
  define rx where "rx = x mod pw"
  define ry where "ry = y mod ph"
  have gx: "0 \<le> qx" "qx < chain" "0 \<le> rx" "rx < pw"
    using pixel_in_grid [OF topo(3) pix(1,2)] by (simp_all add: qx_def rx_def)
  have gy: "0 \<le> qy" "qy < parallel" "0 \<le> ry" "ry < ph"
    using pixel_in_grid [OF topo(4) pix(3,4)] by (simp_all add: qy_def ry_def)
  have pc: "static_const_init (panel_cols st) (c_div (chain * pw) chain) = Inr pw"
    using st topo by (simp add: statics_current_def c_div_nonneg static_const_init_current)
  have pr: "static_const_init (panel_rows st) (c_div (parallel * ph) parallel) = Inr ph"
    using st topo by (simp add: statics_current_def c_div_nonneg static_const_init_current)
  have dx: "c_div x pw = Inr qx" and dy: "c_div y ph = Inr qy"
    using topo pix by (simp_all add: c_div_nonneg qx_def qy_def)
  have ox: "(if qx = 0 then Inr x else c_mod x (qx * pw)) = Inr rx"
    unfolding qx_def rx_def using in_panel_offset [OF topo(3) pix(1)] .
  have oy: "(if qy = 0 then Inr y else c_mod y (qy * ph)) = Inr ry"
    unfolding qy_def ry_def using in_panel_offset [OF topo(4) pix(3)] .
  have key: "(y sdiv ph) * chain + x sdiv pw = qy * chain + qx"
    using topo pix by (simp add: sdiv_nonneg qx_def qy_def)
  have flipx: "0 \<le> pw - rx - 1" "pw - rx - 1 < pw" and flipy: "0 \<le> ph - ry - 1" "ph - ry - 1 < ph"
    using gx gy by simp_all
  have b_id: "0 \<le> x \<and> x < chain * pw \<and> 0 \<le> y \<and> y < parallel * ph"
    using pix by simp
  have b90: "0 \<le> qx * pw + (pw - ry - 1) \<and> qx * pw + (pw - ry - 1) < chain * pw
             \<and> 0 \<le> qy * ph + rx \<and> qy * ph + rx < parallel * ph"
    if sq: "pw = ph"
    using in_panel [of qx chain "pw - ry - 1" pw] in_panel [of qy parallel rx ph]
      gx gy flipy topo sq by simp
  have b180: "0 \<le> qx * pw + (ph - rx - 1) \<and> qx * pw + (ph - rx - 1) < chain * pw
             \<and> 0 \<le> qy * ph + (pw - ry - 1) \<and> qy * ph + (pw - ry - 1) < parallel * ph"
    if sq: "pw = ph"
    using in_panel [of qx chain "ph - rx - 1" pw] in_panel [of qy parallel "pw - ry - 1" ph]
      gx gy flipx flipy topo sq by simp
  have b270: "0 \<le> qx * pw + ry \<and> qx * pw + ry < chain * pw
             \<and> 0 \<le> qy * ph + (ph - rx - 1) \<and> qy * ph + (ph - rx - 1) < parallel * ph"
    if sq: "pw = ph"
    using in_panel [of qx chain ry pw] in_panel [of qy parallel "ph - rx - 1" ph]
      gx gy flipx topo sq by simp
  show ?thesis
  proof (cases "RotatePanel_panels m (qy * chain + qx)")
    case None
    then have "RotatePanelPixelMapper_MapVisibleToMatrix m st (chain * pw) (parallel * ph) x y
                 = Inr (\<lparr>panel_cols = Some pw, panel_rows = Some ph\<rparr>, Some (x, y))"
      unfolding RotatePanelPixelMapper_MapVisibleToMatrix_def cfg pc pr
      by (simp add: dx dy)
    then show ?thesis using b_id by blast
  next
    case (Some angle)
    with ang key have a: "angle = 0 \<or> angle = 90 \<or> angle = 180 \<or> angle = 270"
      and sq: "angle \<noteq> 0 \<Longrightarrow> pw = ph"
      by auto
    have run: "RotatePanelPixelMapper_MapVisibleToMatrix m st (chain * pw) (parallel * ph) x y
                 = Inr (\<lparr>panel_cols = Some pw, panel_rows = Some ph\<rparr>,
                        Some (if angle = 0 then (x, y)
                              else if angle = 90
                              then (qx * pw + (pw - ry - 1), qy * ph + rx)
                              else if angle = 180
                              then (qx * pw + (ph - rx - 1), qy * ph + (pw - ry - 1))
                              else (qx * pw + ry, qy * ph + (ph - rx - 1))))"
      unfolding RotatePanelPixelMapper_MapVisibleToMatrix_def cfg pc pr
      using a by (auto simp: dx dy Some ox oy)
    from a show ?thesis
    proof (elim disjE)
      assume "angle = 0"
      then show ?thesis using run b_id by simp
    next
      assume "angle = 90"
      then show ?thesis using run b90 sq by simp
    next
      assume "angle = 180"
      then show ?thesis using run b180 sq by simp
    next
      assume "angle = 270"
      then show ?thesis using run b270 sq by simp
    qed
  qed
qed

lemma Reorder_in_range:
  assumes topo: "0 < chain" "0 < parallel" "0 < pw" "0 < ph"
    and cfg: "Reorder_chain m = chain" "Reorder_parallel m = parallel"
    and st: "statics_current st pw ph"
    and dest: "case Reorder_panels m ((y sdiv ph) * chain + x sdiv pw) of
                 None \<Rightarrow> True
               | Some panel_to_index \<Rightarrow>
                   parallel \<noteq> 1
                   \<and> 0 \<le> panel_to_index smod (parallel - 1)
                   \<and> panel_to_index smod (parallel - 1) < chain
                   \<and> 0 \<le> panel_to_index sdiv (parallel - 1)
                   \<and> panel_to_index sdiv (parallel - 1) < parallel"
    and pix: "0 \<le> x" "x < chain * pw" "0 \<le> y" "y < parallel * ph"
  shows "\<exists>st' mx my.
           ReorderPixelMapper_MapVisibleToMatrix m st (chain * pw) (parallel * ph) x y
             = Inr (st', Some (mx, my))
           \<and> 0 \<le> mx \<and> mx < chain * pw \<and> 0 \<le> my \<and> my < parallel * ph"
proof -
  define qx where "qx = x div pw"
  define qy where "qy = y div ph"
  define rx where "rx = x mod pw"
  define ry where "ry = y mod ph"
  have gx: "0 \<le> rx" "rx < pw"
    using pixel_in_grid [OF topo(3) pix(1,2)] by (simp_all add: rx_def)
  have gy: "0 \<le> ry" "ry < ph"
    using pixel_in_grid [OF topo(4) pix(3,4)] by (simp_all add: ry_def)
  have pc: "static_const_init (panel_cols st) (c_div (chain * pw) chain) = Inr pw"
    using st topo by (simp add: statics_current_def c_div_nonneg static_const_init_current)
  have pr: "static_const_init (panel_rows st) (c_div (parallel * ph) parallel) = Inr ph"
    using st topo by (simp add: statics_current_def c_div_nonneg static_const_init_current)
  have dx: "c_div x pw = Inr qx" and dy: "c_div y ph = Inr qy"
    using topo pix by (simp_all add: c_div_nonneg qx_def qy_def)
  have ox: "(if qx = 0 then Inr x else c_mod x (qx * pw)) = Inr rx"
    unfolding qx_def rx_def using in_panel_offset [OF topo(3) pix(1)] .
  have oy: "(if qy = 0 then Inr y else c_mod y (qy * ph)) = Inr ry"
    unfolding qy_def ry_def using in_panel_offset [OF topo(4) pix(3)] .
  have key: "(y sdiv ph) * chain + x sdiv pw = qy * chain + qx"
    using topo pix by (simp add: sdiv_nonneg qx_def qy_def)
  show ?thesis
  proof (cases "Reorder_panels m (qy * chain + qx)")
    case None
    then have "ReorderPixelMapper_MapVisibleToMatrix m st (chain * pw) (parallel * ph) x y
                 = Inr (\<lparr>panel_cols = Some pw, panel_rows = Some ph\<rparr>, Some (x, y))"
      unfolding ReorderPixelMapper_MapVisibleToMatrix_def cfg pc pr
      by (simp add: dx dy)
    then show ?thesis using pix by blast
  next
    case (Some panel_to_index)
    define tx where "tx = panel_to_index smod (parallel - 1)"
    define ty where "ty = panel_to_index sdiv (parallel - 1)"
    from dest key Some have nz: "parallel - 1 \<noteq> 0"
      and t: "0 \<le> tx" "tx < chain" "0 \<le> ty" "ty < parallel"
      by (simp_all add: tx_def ty_def)
    have dt: "c_mod panel_to_index (parallel - 1) = Inr tx"
      "c_div panel_to_index (parallel - 1) = Inr ty"
      using nz by (simp_all add: c_mod_nonzero c_div_nonzero tx_def ty_def)
    have run: "ReorderPixelMapper_MapVisibleToMatrix m st (chain * pw) (parallel * ph) x y
                 = Inr (\<lparr>panel_cols = Some pw, panel_rows = Some ph\<rparr>,
                        Some (tx * pw + rx, ty * ph + ry))"
      unfolding ReorderPixelMapper_MapVisibleToMatrix_def cfg pc pr
      by (simp add: dx dy Some dt ox oy)
    have "0 \<le> tx * pw + rx \<and> tx * pw + rx < chain * pw"
      using in_panel [OF t(1,2) gx topo(3)] .
    moreover have "0 \<le> ty * ph + ry \<and> ty * ph + ry < parallel * ph"
      using in_panel [OF t(3,4) gy topo(4)] .
    ultimately show ?thesis
      using run by blast
  qed
qed

lemma Rotate_in_range:
  assumes ang: "Rotate_angle m \<in> {0, 90, 180, 270}"
    and size: "RotatePixelMapper_GetSizeMapping m mw mh = Inr (True, vw, vh)"
    and pix: "0 \<le> x" "x < vw" "0 \<le> y" "y < vh"
  shows "\<exists>mx my. RotatePixelMapper_MapVisibleToMatrix m mw mh x y = Inr (Some (mx, my))
                 \<and> 0 \<le> mx \<and> mx < mw \<and> 0 \<le> my \<and> my < mh"
proof -
  have m: "(0::int) smod 180 = 0" "(90::int) smod 180 \<noteq> 0" "(180::int) smod 180 = 0"
    "(270::int) smod 180 \<noteq> 0"
    by (simp_all add: signed_modulo_int_def)
  from ang consider "Rotate_angle m = 0" | "Rotate_angle m = 90" | "Rotate_angle m = 180"
    | "Rotate_angle m = 270"
    by auto
  then show ?thesis
  proof cases
    case 1
    with size m have "vw = mw" "vh = mh"
      by (simp_all add: RotatePixelMapper_GetSizeMapping_def)
    with 1 pix show ?thesis
      by (simp add: RotatePixelMapper_MapVisibleToMatrix_def)
  next
    case 2
    with size m have "vw = mh" "vh = mw"
      by (simp_all add: RotatePixelMapper_GetSizeMapping_def)
    with 2 pix show ?thesis
      by (simp add: RotatePixelMapper_MapVisibleToMatrix_def)
  next
    case 3
    with size m have "vw = mw" "vh = mh"
      by (simp_all add: RotatePixelMapper_GetSizeMapping_def)
    with 3 pix show ?thesis
      by (simp add: RotatePixelMapper_MapVisibleToMatrix_def)
  next
    case 4
    with size m have "vw = mh" "vh = mw"
      by (simp_all add: RotatePixelMapper_GetSizeMapping_def)
    with 4 pix show ?thesis
      by (simp add: RotatePixelMapper_MapVisibleToMatrix_def)
  qed
qed

lemma Mirror_in_range:
  assumes size: "MirrorPixelMapper_GetSizeMapping m mw mh = Inr (True, vw, vh)"
    and pix: "0 \<le> x" "x < vw" "0 \<le> y" "y < vh"
  shows "\<exists>mx my. MirrorPixelMapper_MapVisibleToMatrix m mw mh x y = Inr (Some (mx, my))
                 \<and> 0 \<le> mx \<and> mx < mw \<and> 0 \<le> my \<and> my < mh"
  using assms
  by (simp add: MirrorPixelMapper_GetSizeMapping_def MirrorPixelMapper_MapVisibleToMatrix_def)

lemma U_fold_width:
  assumes "0 \<le> (mw::int)"
  shows "(mw div 64) * 32 + mw div 2 \<le> mw" and "(mw div 64) * 32 \<le> mw"
proof -
  have f1: "64 * (mw div 64) + mw mod 64 = mw" and f2: "0 \<le> mw mod 64"
    by simp_all
  have f3: "2 * (mw div 2) + mw mod 2 = mw" and f4: "0 \<le> mw mod 2"
    by simp_all
  have f5: "0 \<le> mw div 64"
    using assms by (simp add: pos_imp_zdiv_nonneg_iff)
  show "(mw div 64) * 32 + mw div 2 \<le> mw"
    using f1 f2 f3 f4 by linarith
  show "(mw div 64) * 32 \<le> mw"
    using f1 f2 f5 by linarith
qed

lemma U_in_range:
  assumes topo: "0 < chain" "0 < parallel" "0 < pw" "0 < ph"
    and cfg: "U_parallel m = parallel"
    and size: "UArrangementMapper_GetSizeMapping m (chain * pw) (parallel * ph)
                 = Inr (True, vw, vh)"
    and pix: "0 \<le> x" "x < vw" "0 \<le> y" "y < vh"
  shows "\<exists>mx my. UArrangementMapper_MapVisibleToMatrix m (chain * pw) (parallel * ph) x y
                     = Inr (Some (mx, my))
                 \<and> 0 \<le> mx \<and> mx < chain * pw \<and> 0 \<le> my \<and> my < parallel * ph"
proof -
  define mw where "mw = chain * pw"
  define q where "q = y div (2 * ph)"
  define y1 where "y1 = y mod (2 * ph)"
  have mw: "0 \<le> mw"
    using topo by (simp add: mw_def)
  have d64: "mw sdiv 64 = mw div 64" and d2: "mw sdiv 2 = mw div 2"
    using mw by (simp_all add: sdiv_nonneg)
  have pz: "parallel \<noteq> 0" using topo by simp
  from size have vw: "vw = (mw div 64) * 32" and vh: "vh = 2 * (parallel * ph)"
    unfolding UArrangementMapper_GetSizeMapping_def cfg mw_def [symmetric] Let_def d64
    by (auto simp: c_mod_nonzero pz split: if_splits)
  have slab: "0 < 2 * ph" using topo by simp
  have yr: "y < parallel * (2 * ph)"
    using pix(4) vh by simp
  have g: "0 \<le> q" "q < parallel" "0 \<le> y1" "y1 < 2 * ph"
    using pixel_in_grid [OF slab pix(3) yr] by (simp_all add: q_def y1_def)
  have phd: "c_div (parallel * ph) parallel = Inr ph"
    using topo by (simp add: c_div_nonneg)
  have dq: "c_div y (2 * ph) = Inr q" and dm: "c_mod y (2 * ph) = Inr y1"
    using slab pix(3) by (simp_all add: c_div_nonneg c_mod_nonneg q_def y1_def)
  have run: "UArrangementMapper_MapVisibleToMatrix m mw (parallel * ph) x y =
               Inr (Some (if y1 < ph then (x + mw div 2, q * ph + y1)
                          else ((mw div 64) * 32 - x - 1, q * ph + (2 * ph - y1 - 1))))"
    unfolding UArrangementMapper_MapVisibleToMatrix_def cfg phd d64 d2
    by (simp add: dq dm Let_def)
  show ?thesis
  proof (cases "y1 < ph")
    case True
    have "0 \<le> q * ph + y1 \<and> q * ph + y1 < parallel * ph"
      using in_panel [of q parallel y1 ph] g True topo by simp
    moreover have "0 \<le> x + mw div 2 \<and> x + mw div 2 < mw"
      using pix(1,2) vw U_fold_width(1) [OF mw] mw by simp
    ultimately show ?thesis
      using run True unfolding mw_def by simp
  next
    case False
    have "0 \<le> q * ph + (2 * ph - y1 - 1) \<and> q * ph + (2 * ph - y1 - 1) < parallel * ph"
      using in_panel [of q parallel "2 * ph - y1 - 1" ph] g False topo by simp
    moreover have "0 \<le> (mw div 64) * 32 - x - 1 \<and> (mw div 64) * 32 - x - 1 < mw"
      using pix(1,2) vw U_fold_width(2) [OF mw] by simp
    ultimately show ?thesis
      using run False unfolding mw_def by simp
  qed
qed

lemma Vertical_in_range:
  assumes topo: "0 < chain" "0 < parallel" "0 < pw" "0 < ph"
    and cfg: "Vertical_chain m = chain" "Vertical_parallel m = parallel"
    and size: "VerticalMapper_GetSizeMapping m (chain * pw) (parallel * ph)
                 = Inr (True, vw, vh)"
    and pix: "0 \<le> x" "x < vw" "0 \<le> y" "y < vh"
  shows "\<exists>mx my. VerticalMapper_MapVisibleToMatrix m (chain * pw) (parallel * ph) x y
                     = Inr (Some (mx, my))
                 \<and> 0 \<le> mx \<and> mx < chain * pw \<and> 0 \<le> my \<and> my < parallel * ph"
proof -
  define qx where "qx = x div pw"
  define qy where "qy = y div ph"
  define rx where "rx = x mod pw"
  define ry where "ry = y mod ph"
  have w1: "c_div (chain * pw * parallel) chain = Inr (parallel * pw)"
  proof -
    have "chain * pw * parallel = chain * (parallel * pw)" by simp
    then show ?thesis
      using topo by (simp add: c_div_nonneg del: mult.assoc mult.commute mult.left_commute)
  qed
  have h1: "c_div (parallel * ph * chain) parallel = Inr (chain * ph)"
  proof -
    have "parallel * ph * chain = parallel * (chain * ph)" by simp
    then show ?thesis
      using topo by (simp add: c_div_nonneg)
  qed
  from size have vw: "vw = parallel * pw" and vh: "vh = chain * ph"
    unfolding VerticalMapper_GetSizeMapping_def cfg w1 h1 by simp_all
  have gx: "0 \<le> qx" "qx < parallel" "0 \<le> rx" "rx < pw"
    using pixel_in_grid [OF topo(3) pix(1)] pix(2) vw by (simp_all add: qx_def rx_def)
  have gy: "0 \<le> qy" "qy < chain" "0 \<le> ry" "ry < ph"
    using pixel_in_grid [OF topo(4) pix(3)] pix(4) vh by (simp_all add: qy_def ry_def)
  have pwd: "c_div (chain * pw) chain = Inr pw" and phd: "c_div (parallel * ph) parallel = Inr ph"
    using topo by (simp_all add: c_div_nonneg)
  have d: "c_div y ph = Inr qy" "c_div x pw = Inr qx" "c_mod x pw = Inr rx" "c_mod y ph = Inr ry"
    using topo pix by (simp_all add: c_div_nonneg c_mod_nonneg qx_def qy_def rx_def ry_def)
  define flip where "flip = (Vertical_z m \<and> qy smod 2 = 1)"
  have run: "VerticalMapper_MapVisibleToMatrix m (chain * pw) (parallel * ph) x y =
               Inr (Some (qy * pw + (if flip then pw - 1 - rx else rx),
                          qx * ph + (if flip then ph - 1 - ry else ry)))"
    unfolding VerticalMapper_MapVisibleToMatrix_def cfg pwd phd
    by (simp add: d Let_def flip_def)
  have ox: "0 \<le> (if flip then pw - 1 - rx else rx)" "(if flip then pw - 1 - rx else rx) < pw"
    using gx by simp_all
  have oy: "0 \<le> (if flip then ph - 1 - ry else ry)" "(if flip then ph - 1 - ry else ry) < ph"
    using gy by simp_all
  have "0 \<le> qy * pw + (if flip then pw - 1 - rx else rx)
        \<and> qy * pw + (if flip then pw - 1 - rx else rx) < chain * pw"
    using in_panel [OF gy(1,2) ox topo(3)] .
  moreover have "0 \<le> qx * ph + (if flip then ph - 1 - ry else ry)
        \<and> qx * ph + (if flip then ph - 1 - ry else ry) < parallel * ph"
    using in_panel [OF gx(1,2) oy topo(4)] .
  ultimately show ?thesis
    using run by blast
qed


lemma RotatePanel_SetParameters_fields:
  assumes "RotatePanelPixelMapper_SetParameters m0 chain parallel param = (ok, m, diags)"
  shows "ok" and "RotatePanel_chain m = chain" and "RotatePanel_parallel m = parallel"
  using assms
  by (auto simp: RotatePanelPixelMapper_SetParameters_def Let_def
           split: option.splits prod.splits)

lemma U_SetParameters_accepted:
  assumes "UArrangementMapper_SetParameters m0 chain parallel param = (True, m, diags)"
  shows "U_parallel m = parallel"
  using assms by (auto simp: UArrangementMapper_SetParameters_def split: if_splits)

lemma Vertical_SetParameters_fields:
  assumes "VerticalMapper_SetParameters m0 chain parallel param = (ok, m, diags)"
  shows "Vertical_chain m = chain" and "Vertical_parallel m = parallel"
  using assms by (auto simp: VerticalMapper_SetParameters_def)

text \<open>
  Claim C1, as amended: take any mapper of the registry's seven classes that
  \<open>SetParameters\<close> has accepted for a topology of \<open>chain\<close> by \<open>parallel\<close> panels
  (both positive), and a matrix of that many panels of \<open>pw\<close> by \<open>ph\<close> pixels (both
  positive). For every visible \<open>(x, y)\<close> inside the size that \<open>GetSizeMapping\<close>
  returns with success, \<open>MapVisibleToMatrix\<close> returns, writes both outputs and the
  result lies inside the matrix, provided the call satisfies \<open>within_design\<close>:
  \<^item> rotate-panel: the cached panel size is uninitialised or the current one, and the
    pixel's panel has no registered angle, or the angle 0, or one of 90, 180 and 270 on
    square panels;
  \<^item> reorder: the cached panel size is uninitialised or the current one, and the pixel's
    panel has no registered destination, or one whose computed column and row lie in the
    grid;
  \<^item> rotate: the stored angle is 0, 90, 180 or 270.

  The row, U, vertical and mirror mappers need nothing more. What the conditions leave
  out is neither promised nor denied.
\<close>

theorem MapVisibleToMatrix_range_correct:
  assumes topo: "0 < chain" "0 < parallel" "0 < pw" "0 < ph"
    and conf: "SetParameters mapper0 chain parallel param = (True, mapper, diags)"
    and design: "within_design mapper g pw ph x y"
    and size: "GetSizeMapping mapper (chain * pw) (parallel * ph) = Inr (True, vw, vh)"
    and pix: "0 \<le> x" "x < vw" "0 \<le> y" "y < vh"
  shows "\<exists>g' mx my.
           MapVisibleToMatrix mapper g (chain * pw) (parallel * ph) x y = Inr (g', Some (mx, my))
           \<and> 0 \<le> mx \<and> mx < chain * pw \<and> 0 \<le> my \<and> my < parallel * ph"
proof (cases mapper0)
  case (OfRow m0)
  with conf obtain m where m: "mapper = OfRow m"
    and c: "RowArrangementMapper_SetParameters m0 chain parallel param = (True, m, diags)"
    by (auto split: prod.splits)
  note f = Row_SetParameters_accepted [OF c]
  from Row_in_range [OF topo f(1,2) size [unfolded m GetSizeMapping.simps] pix]
  show ?thesis unfolding m by auto
next
  case (OfRotatePanel m0)
  with conf obtain m where m: "mapper = OfRotatePanel m"
    and c: "RotatePanelPixelMapper_SetParameters m0 chain parallel param = (True, m, diags)"
    by (auto split: prod.splits)
  note f = RotatePanel_SetParameters_fields [OF c]
  from size have v: "vw = chain * pw" "vh = parallel * ph"
    unfolding m by (simp_all add: RotatePanelPixelMapper_GetSizeMapping_def)
  from design have dd: "statics_current (RotatePanel_statics g) pw ph
    \<and> (case RotatePanel_panels m ((y sdiv ph) * chain + x sdiv pw) of
         None \<Rightarrow> True
       | Some angle \<Rightarrow> angle = 0 \<or> (angle \<in> {90, 180, 270} \<and> pw = ph))"
    unfolding m within_design.simps f(2) .
  note d = conjunct1 [OF dd] conjunct2 [OF dd]
  from RotatePanel_in_range [OF topo f(2,3) d pix [unfolded v]]
  show ?thesis unfolding m by auto
next
  case (OfReorder m0)
  with conf obtain m where m: "mapper = OfReorder m"
    and c: "ReorderPixelMapper_SetParameters m0 chain parallel param = (True, m, diags)"
    by (auto split: prod.splits)
  note f = Reorder_SetParameters_fields [OF c]
  from size have v: "vw = chain * pw" "vh = parallel * ph"
    unfolding m by (simp_all add: ReorderPixelMapper_GetSizeMapping_def)
  from design have dd: "statics_current (Reorder_statics g) pw ph
    \<and> (case Reorder_panels m ((y sdiv ph) * chain + x sdiv pw) of
         None \<Rightarrow> True
       | Some panel_to_index \<Rightarrow>
           parallel \<noteq> 1
           \<and> 0 \<le> panel_to_index smod (parallel - 1)
           \<and> panel_to_index smod (parallel - 1) < chain
           \<and> 0 \<le> panel_to_index sdiv (parallel - 1)
           \<and> panel_to_index sdiv (parallel - 1) < parallel)"
    unfolding m within_design.simps f(2,3) .
  note d = conjunct1 [OF dd] conjunct2 [OF dd]
  from Reorder_in_range [OF topo f(2,3) d pix [unfolded v]]
  show ?thesis unfolding m by auto
next
  case (OfRotate m0)
  with conf obtain m where m: "mapper = OfRotate m"
    by (auto split: prod.splits)
  from design have d: "Rotate_angle m \<in> {0, 90, 180, 270}"
    unfolding m by simp
  from Rotate_in_range [OF d size [unfolded m GetSizeMapping.simps] pix]
  show ?thesis unfolding m by auto
next
  case (OfU m0)
  with conf obtain m where m: "mapper = OfU m"
    and c: "UArrangementMapper_SetParameters m0 chain parallel param = (True, m, diags)"
    by (auto split: prod.splits)
  note f = U_SetParameters_accepted [OF c]
  from U_in_range [OF topo f size [unfolded m GetSizeMapping.simps] pix]
  show ?thesis unfolding m by auto
next
  case (OfVertical m0)
  with conf obtain m where m: "mapper = OfVertical m"
    and c: "VerticalMapper_SetParameters m0 chain parallel param = (True, m, diags)"
    by (auto split: prod.splits)
  note f = Vertical_SetParameters_fields [OF c]
  from Vertical_in_range [OF topo f size [unfolded m GetSizeMapping.simps] pix]
  show ?thesis unfolding m by auto
next
  case (OfMirror m0)
  with conf obtain m where m: "mapper = OfMirror m"
    by (auto split: prod.splits)
  from Mirror_in_range [OF size [unfolded m GetSizeMapping.simps] pix]
  show ?thesis unfolding m by auto
qed

text \<open>
  Claim C1 as stated fails where a rotated panel is not square. A new rotate-panel mapper
  accepts \<open>0|90\<close> for one panel; for a 64 by 32 matrix the visible size is 64 by 32;
  the visible pixel \<open>(63, 0)\<close> is mapped to \<open>(63, 63)\<close>, and row 63 is outside the
  32 rows of the matrix.
\<close>

theorem MapVisibleToMatrix_out_of_range_counterexample:
  "fst (SetParameters (OfRotatePanel (RotatePanelPixelMapper_new 0 0)) 1 1 (Some ''0|90''))
   \<and> GetSizeMapping
       (fst (snd (SetParameters (OfRotatePanel (RotatePanelPixelMapper_new 0 0)) 1 1
                    (Some ''0|90''))))
       64 32 = Inr (True, 64, 32)
   \<and> (0::int) \<le> 63 \<and> (63::int) < 64 \<and> (0::int) \<le> 0 \<and> (0::int) < 32
   \<and> MapVisibleToMatrix
       (fst (snd (SetParameters (OfRotatePanel (RotatePanelPixelMapper_new 0 0)) 1 1
                    (Some ''0|90''))))
       process_start 64 32 63 0
     = Inr (process_start\<lparr>RotatePanel_statics :=
                             \<lparr>panel_cols = Some 64, panel_rows = Some 32\<rparr>\<rparr>,
            Some (63, 63))
   \<and> \<not> (63::int) < 32"
  by code_simp

subsection \<open>Calls outside the conditions\<close>

text \<open>
  Three calls that the conditions leave out, evaluated. The half turn of a panel that is
  not square: \<open>0|180\<close> on one 64 by 32 panel sends \<open>(0, 0)\<close> to \<open>(31, 63)\<close>, where the
  column \<open>63 - 0\<close> was to be expected and row 63 does not exist.
\<close>

lemma RotatePanel_half_turn_not_square:
  "RotatePanelPixelMapper_MapVisibleToMatrix
     (fst (snd (RotatePanelPixelMapper_SetParameters (RotatePanelPixelMapper_new 0 0) 1 1
                  (Some ''0|180''))))
     statics_uninitialised 64 32 0 0
   = Inr (\<lparr>panel_cols = Some 64, panel_rows = Some 32\<rparr>, Some (31, 63))"
  by code_simp

text \<open>
  A reorder destination decomposed with \<open>parallel_ - 1\<close>: \<open>1|3,3|1\<close> on two chains of
  two 32 by 32 panels sends \<open>(40, 5)\<close> to \<open>(8, 101)\<close>, in a matrix of 64 rows.
\<close>

lemma Reorder_destination_outside_grid:
  "ReorderPixelMapper_MapVisibleToMatrix
     (fst (snd (ReorderPixelMapper_SetParameters (ReorderPixelMapper_new 0 0) 2 2
                  (Some ''1|3,3|1''))))
     statics_uninitialised 64 64 40 5
   = Inr (\<lparr>panel_cols = Some 32, panel_rows = Some 32\<rparr>, Some (8, 101))"
  by code_simp

text \<open>
  A whole-display rotation below -360: \<open>-450\<close> is accepted, \<open>(angle + 360) % 360\<close>
  stores -90, the visible size is the swapped one and \<open>MapVisibleToMatrix\<close> writes no
  output.
\<close>

lemma Rotate_angle_below_minus_360:
  "RotatePixelMapper_SetParameters RotatePixelMapper_new 1 1 (Some ''-450'')
     = (True, \<lparr>Rotate_angle = - 90\<rparr>, [])
   \<and> RotatePixelMapper_GetSizeMapping \<lparr>Rotate_angle = - 90\<rparr> 64 32 = Inr (True, 32, 64)
   \<and> RotatePixelMapper_MapVisibleToMatrix \<lparr>Rotate_angle = - 90\<rparr> 64 32 0 0 = Inr None"
  by code_simp

theorem MapVisibleToMatrix_range_correct_witness:
  "\<exists>g' mx my.
     MapVisibleToMatrix
       (fst (snd (SetParameters (OfRotatePanel (RotatePanelPixelMapper_new 0 0)) 2 1
                    (Some ''0|90''))))
       process_start (2 * 32) (1 * 32) 5 7 = Inr (g', Some (mx, my))
     \<and> 0 \<le> mx \<and> mx < 2 * 32 \<and> 0 \<le> my \<and> my < 1 * 32"
proof -
  let ?r = "SetParameters (OfRotatePanel (RotatePanelPixelMapper_new 0 0)) 2 1 (Some ''0|90'')"
  have ok: "fst ?r = True"
    by code_simp
  have conf: "?r = (True, fst (snd ?r), snd (snd ?r))"
    using ok by (cases ?r) simp
  have design: "within_design (fst (snd ?r)) process_start 32 32 5 7"
    by code_simp
  have size: "GetSizeMapping (fst (snd ?r)) (2 * 32) (1 * 32) = Inr (True, 64, 32)"
    by code_simp
  have topo: "(0::int) < 2" "(0::int) < 1" "(0::int) < 32"
    by simp_all
  have pix: "(0::int) \<le> 5" "(5::int) < 64" "(0::int) \<le> 7" "(7::int) < 32"
    by simp_all
  show ?thesis
    using MapVisibleToMatrix_range_correct [OF topo(1,2,3,3) conf design size pix] .
qed

end
